theory Spec2Isabelle
  imports Main "HOL-Library.AList" "HOL-Library.Word"
begin

section \<open>Data model of the containerd event monitor\<close>

text \<open>
  The Go package \<open>containerd\<close> (port-binding events of the containerd API) is embedded
  function by function. External processes, the runtime client, the JSON and protobuf
  decoders and the CNI chain-name helper are inputs of the model: they are fields of the
  record \<open>env\<close>. Everything the code does to the outside (error log lines, calls that
  mutate the port tracker, external commands) is appended to a trace; debug log lines are
  left out. An external command is a function of its argument vector: running the same
  command twice gives the same outcome.
\<close>

subsection \<open>Errors\<close>

text \<open>What \<open>os/exec\<close> reports: a non-zero exit status, or a process that never ran.\<close>

datatype exec_error = ExitError nat | StartFailed

datatype error =
    ErrIPAddressNotFound
  | ErrExecIptablesRule "error list"
  | ExecFailed exec_error
  | UnmarshalNetworks error
  | IptablesRuleFailed "string list" exec_error string
  | Joined "error list"
  | JSONError string
  | InvalidPort string
  | ProtoError string
  | ClientError string
  | TrackerError string

subsection \<open>Label keys\<close>

definition namespaceKey :: string where "namespaceKey = ''nerdctl/namespace''"
definition portsKey :: string where "portsKey = ''nerdctl/ports''"
definition networkKey :: string where "networkKey = ''nerdctl/networks''"

subsection \<open>Ports and bindings\<close>

text \<open>
  The struct \<open>Port\<close>: one entry of the \<open>nerdctl/ports\<close> label. Its two numbers are Go
  \<open>int\<close>s; they are only ever printed in decimal, so they are integers here.
\<close>

record Port =
  port_HostPort :: int
  port_ContainerPort :: int
  port_Protocol :: string
  port_HostIP :: string

text \<open>\<open>nat.PortBinding\<close> of docker/go-connections.\<close>

record PortBinding =
  HostIP :: string
  HostPort :: string

text \<open>
  \<open>nat.PortMap\<close> is a Go map from \<open>nat.Port\<close> (a string such as \<open>80/tcp\<close>) to a slice of
  bindings. It is modelled as an association list whose keys are distinct; looking a key
  up is \<open>map_of\<close> and \<open>len\<close> is \<open>length\<close>. Go ranges over a map in no fixed order; the
  model ranges in list order.
\<close>

type_synonym PortMap = "(string \<times> PortBinding list) list"

text \<open>
  \<open>reflect.DeepEqual\<close> on two non-nil maps: the same number of keys, and every key of the
  first is a key of the second with a deeply equal value. Two slices of bindings are
  deeply equal when they have the same elements in the same order.
\<close>

definition DeepEqual :: "PortMap \<Rightarrow> PortMap \<Rightarrow> bool" where
  "DeepEqual a b =
     (length a = length b \<and> list_all (\<lambda>(k, v). map_of b k = Some v) a)"

subsection \<open>Effects\<close>

datatype log_site =
    LogContextCancellation | LogReceiving
  | LogUnmarshalStart | LogUnmarshalUpdate | LogUnmarshalExit
  | LogGetContainer | LogPortMapping | LogIptables
  | LogTrackerAdd | LogTrackerRemove
  | LogContainers | LogTask | LogStatus | LogLabels

datatype effect =
    Errorf log_site error
  | TrackerAdd string PortMap
  | TrackerRemove string
  | Command "string list"

text \<open>The argument vector of an effect that runs the firewall command.\<close>

fun is_iptables :: "effect \<Rightarrow> bool" where
  "is_iptables (Command argv) = (case argv of [] \<Rightarrow> False | c # _ \<Rightarrow> c = ''iptables'')"
| "is_iptables _ = False"

fun is_tracker_mutation :: "effect \<Rightarrow> bool" where
  "is_tracker_mutation (TrackerAdd _ _) = True"
| "is_tracker_mutation (TrackerRemove _) = True"
| "is_tracker_mutation _ = False"

fun is_command :: "effect \<Rightarrow> bool" where
  "is_command (Command _) = True"
| "is_command _ = False"

subsection \<open>The environment\<close>

datatype process_status = Running | Created | Stopped | Paused | Pausing | Unknown

record TaskStart =
  ContainerID :: string
  Pid :: "32 word"

record rtask =
  task_Pid :: "32 word"
  task_Status :: "error + process_status"

record rcontainer =
  container_ID :: string
  container_Task :: "error + rtask"
  container_Labels :: "error + (string \<rightharpoonup> string)"

text \<open>
  The decoders return the decoded message together with the error, as Go does: after a
  failed decode the code goes on with whatever the message holds.
\<close>

record env =
  unmarshalTaskStart :: "string \<Rightarrow> TaskStart \<times> error option"
  unmarshalContainerUpdate :: "string \<Rightarrow> string \<times> error option"
  unmarshalTaskExit :: "string \<Rightarrow> string \<times> error option"
  containerGet :: "string \<Rightarrow> (string \<rightharpoonup> string) \<times> error option"
  unmarshalPorts :: "string \<Rightarrow> error + Port list"
  unmarshalNetworks :: "string \<Rightarrow> error + string list"
  MustFormatChainNameWithPrefix :: "string \<Rightarrow> string \<Rightarrow> string \<Rightarrow> string"
  nsenter :: "string list \<Rightarrow> string \<times> exec_error option"
  iptables :: "string list \<Rightarrow> exec_error option \<times> string"
  Containers :: "error + rcontainer list"

record envelope =
  Topic :: string
  Namespace :: string
  Event :: string

text \<open>A Go map read at an absent key gives the zero value, the empty string.\<close>

definition label :: "(string \<rightharpoonup> string) \<Rightarrow> string \<Rightarrow> string" where
  "label labels k = (case labels k of None \<Rightarrow> [] | Some v \<Rightarrow> v)"

subsection \<open>The port tracker\<close>

text \<open>
  Modelled from the spec: the implementation behind the interface \<open>tracker.Tracker\<close> is
  not among the sources. The spec's tracker maps a container identifier to its mapping
  set; \<open>add\<close> with an empty set is a no-op, \<open>add\<close> fails if an entry already exists for
  that container, \<open>get\<close> returns nothing for an untracked container and never fails,
  \<open>remove\<close> removes that container's entry only.
\<close>

type_synonym tracker = "string \<rightharpoonup> PortMap"

definition portTracker_Get :: "tracker \<Rightarrow> string \<Rightarrow> PortMap option" where
  "portTracker_Get t cid = t cid"

definition portTracker_Add :: "tracker \<Rightarrow> string \<Rightarrow> PortMap \<Rightarrow> tracker \<times> error option" where
  "portTracker_Add t cid ports =
     (if ports = [] then (t, None)
      else if t cid \<noteq> None then (t, Some (TrackerError ''entry already exists''))
      else (t(cid \<mapsto> ports), None))"

definition portTracker_Remove :: "tracker \<Rightarrow> string \<Rightarrow> tracker \<times> error option" where
  "portTracker_Remove t cid = (t(cid := None), None)"

record world =
  portTracker :: tracker
  trace :: "effect list"

definition emit :: "effect list \<Rightarrow> world \<Rightarrow> world" where
  "emit es w = w\<lparr>trace := trace w @ es\<rparr>"

definition logErr :: "log_site \<Rightarrow> error option \<Rightarrow> world \<Rightarrow> world" where
  "logErr site err w = (case err of None \<Rightarrow> w | Some e \<Rightarrow> emit [Errorf site e] w)"

section \<open>Host address normalisation\<close>

text \<open>
  \<^verbatim>\<open>
  func NormalizeHostIP(ip string) string {
      if ip == "127.0.0.1" || ip == "localhost" {
          return ip
      }
      return "0.0.0.0"
  }
  \<close>
\<close>

definition NormalizeHostIP :: "string \<Rightarrow> string" where
  "NormalizeHostIP ip =
     (if ip = ''127.0.0.1'' \<or> ip = ''localhost'' then ip else ''0.0.0.0'')"

section \<open>The port mapping extractor\<close>

subsection \<open>Decimal conversion\<close>

definition is_digit :: "char \<Rightarrow> bool" where
  "is_digit c = (c \<in> set ''0123456789'')"

definition digit_char :: "nat \<Rightarrow> char" where
  "digit_char d = ''0123456789'' ! d"

fun digits :: "nat \<Rightarrow> string" where
  "digits n = (if n < 10 then [digit_char n] else digits (n div 10) @ [digit_char (n mod 10)])"

declare digits.simps [simp del]

text \<open>\<open>strconv.Itoa\<close>.\<close>

definition Itoa :: "int \<Rightarrow> string" where
  "Itoa i = (if i < 0 then CHR ''-'' # digits (nat (- i)) else digits (nat i))"

definition digit_val :: "char \<Rightarrow> nat" where
  "digit_val c = of_char c - 48"

text \<open>
  \<open>strconv.ParseUint(s, 10, 16)\<close>: a non-empty run of decimal digits whose value fits
  16 bits.
\<close>

definition ParseUint16 :: "string \<Rightarrow> nat option" where
  "ParseUint16 s =
     (if s \<noteq> [] \<and> list_all is_digit s
      then (let v = foldl (\<lambda>a c. 10 * a + digit_val c) 0 s
            in if v < 65536 then Some v else None)
      else None)"

text \<open>
  \<open>nat.NewPort(proto, port)\<close> of docker/go-connections, on the port strings this package
  gives it (the output of \<open>strconv.Itoa\<close>): the port is parsed as an unsigned 16-bit
  number and the key is \<open><port>/<proto>\<close>. A negative number reads as a range with an empty
  start and fails to parse, like every other string that is not such a number.
\<close>

definition NewPort :: "string \<Rightarrow> string \<Rightarrow> error + string" where
  "NewPort proto port =
     (case ParseUint16 port of
        None \<Rightarrow> Inl (InvalidPort port)
      | Some n \<Rightarrow> Inr (Itoa (int n) @ ''/'' @ proto))"

text \<open>\<open>nat.Port.Port()\<close>: the part of the key before the slash.\<close>

definition Port_Port :: "string \<Rightarrow> string" where
  "Port_Port p = takeWhile (\<lambda>c. c \<noteq> CHR ''/'') p"

subsection \<open>createPortMappingFromString\<close>

text \<open>
  The loop over the decoded entries. An entry whose key is already in the map appends its
  binding to that key's slice; a new key gets a one-element slice.
\<close>

fun addPorts :: "Port list \<Rightarrow> PortMap \<Rightarrow> error + PortMap" where
  "addPorts [] portMap = Inr portMap"
| "addPorts (port # ports) portMap =
     (case NewPort (port_Protocol port) (Itoa (port_ContainerPort port)) of
        Inl err \<Rightarrow> Inl err
      | Inr portMapKey \<Rightarrow>
          (let portBinding = \<lparr>HostIP = NormalizeHostIP (port_HostIP port),
                              HostPort = Itoa (port_HostPort port)\<rparr>
           in addPorts ports
                (case map_of portMap portMapKey of
                   Some pb \<Rightarrow> AList.update portMapKey (pb @ [portBinding]) portMap
                 | None \<Rightarrow> AList.update portMapKey [portBinding] portMap)))"

text \<open>
  The result \<open>(portMap, nil)\<close> is \<open>Inr portMap\<close>; the result \<open>(nil, err)\<close> is \<open>Inl err\<close>.
\<close>

definition createPortMappingFromString :: "env \<Rightarrow> string \<Rightarrow> error + PortMap" where
  "createPortMappingFromString E portMapping =
     (if length portMapping = 0 then Inr []
      else (case unmarshalPorts E portMapping of
              Inl err \<Rightarrow> Inl err
            | Inr ports \<Rightarrow> addPorts ports []))"

text \<open>What the callers keep of the result: the map, or the nil map (length 0) on error.\<close>

definition portsOf :: "error + PortMap \<Rightarrow> PortMap" where
  "portsOf r = (case r of Inl _ \<Rightarrow> [] | Inr ports \<Rightarrow> ports)"

definition errOf :: "error + 'a \<Rightarrow> error option" where
  "errOf r = (case r of Inl err \<Rightarrow> Some err | Inr _ \<Rightarrow> None)"

section \<open>The host address resolver\<close>

text \<open>
  The pattern \<^verbatim>\<open>\binet\s+(\d{1,3}\.\d{1,3}\.\d{1,3}\.\d{1,3})\/\d{1,2}\<close>. Every repetition
  is followed by a character outside its class, so a match at a position is found
  without backtracking: the whole run of blanks, then four runs of one to three digits
  with dots between them, a slash and a digit.
\<close>

definition is_space :: "char \<Rightarrow> bool" where
  "is_space c = (c \<in> set [CHR 0x09, CHR 0x0A, CHR 0x0C, CHR 0x0D, CHR '' ''])"

definition is_word :: "char \<Rightarrow> bool" where
  "is_word c =
     (c \<in> set ''0123456789abcdefghijklmnopqrstuvwxyzABCDEFGHIJKLMNOPQRSTUVWXYZ_'')"

definition octet :: "string \<Rightarrow> (string \<times> string) option" where
  "octet s =
     (let ds = takeWhile is_digit s
      in if 1 \<le> length ds \<and> length ds \<le> 3 then Some (ds, dropWhile is_digit s) else None)"

definition lit :: "string \<Rightarrow> string \<Rightarrow> string option" where
  "lit p s = (if take (length p) s = p then Some (drop (length p) s) else None)"

definition blanks :: "string \<Rightarrow> string option" where
  "blanks s = (if takeWhile is_space s = [] then None else Some (dropWhile is_space s))"

definition match_inet :: "string \<Rightarrow> string option" where
  "match_inet s =
     Option.bind (lit ''inet'' s) (\<lambda>s1.
     Option.bind (blanks s1) (\<lambda>s2.
     Option.bind (octet s2) (\<lambda>(a, s3).
     Option.bind (lit ''.'' s3) (\<lambda>s4.
     Option.bind (octet s4) (\<lambda>(b, s5).
     Option.bind (lit ''.'' s5) (\<lambda>s6.
     Option.bind (octet s6) (\<lambda>(c, s7).
     Option.bind (lit ''.'' s7) (\<lambda>s8.
     Option.bind (octet s8) (\<lambda>(d, s9).
     Option.bind (lit ''/'' s9) (\<lambda>s10.
       (case s10 of
          [] \<Rightarrow> None
        | x # _ \<Rightarrow> if is_digit x then Some (a @ ''.'' @ b @ ''.'' @ c @ ''.'' @ d)
                   else None)))))))))))"

text \<open>\<^verbatim>\<open>\b\<close>: exactly one of the characters before and after the position is a word character.\<close>

definition word_boundary :: "char option \<Rightarrow> string \<Rightarrow> bool" where
  "word_boundary prev s =
     ((case prev of None \<Rightarrow> False | Some c \<Rightarrow> is_word c)
      \<noteq> (case s of [] \<Rightarrow> False | c # _ \<Rightarrow> is_word c))"

text \<open>\<open>FindStringSubmatch\<close>: the leftmost match; its first group, or nothing.\<close>

fun find_inet :: "char option \<Rightarrow> string \<Rightarrow> string option" where
  "find_inet prev [] = None"
| "find_inet prev (c # cs) =
     (case (if word_boundary prev (c # cs) then match_inet (c # cs) else None) of
        Some ip \<Rightarrow> Some ip
      | None \<Rightarrow> find_inet (Some c) cs)"

definition nsenterArgs :: "string \<Rightarrow> string list" where
  "nsenterArgs pid =
     [''nsenter'', ''-t'', pid, ''-n'', ''ip'', ''-o'', ''-4'', ''addr'', ''show'', ''dev'', ''eth0'']"

definition extractIPAddress :: "env \<Rightarrow> string \<Rightarrow> error + string" where
  "extractIPAddress E pid =
     (case nsenter E (nsenterArgs pid) of
        (output, Some err) \<Rightarrow> Inl (ExecFailed err)
      | (output, None) \<Rightarrow>
          (case find_inet None output of
             None \<Rightarrow> Inl ErrIPAddressNotFound
           | Some ip \<Rightarrow> Inr ip))"

section \<open>The firewall rule synchronizer\<close>

definition iptablesArgs :: "string \<Rightarrow> string \<Rightarrow> string \<Rightarrow> string list" where
  "iptablesArgs chainName destinationPort toDestination =
     [''iptables'',
      ''--table'', ''nat'',
      ''--append'', chainName,
      ''--protocol'', ''tcp'',
      ''--destination'', ''0.0.0.0/0'',
      ''--jump'', ''DNAT'',
      ''--dport'', destinationPort,
      ''--to-destination'', toDestination]"

text \<open>
  The loop of \<open>createLoopbackIPtablesRules\<close> over the networks. Its state is the slice
  \<open>allErrs\<close> and the commands run so far.
\<close>

fun runNetworks ::
  "env \<Rightarrow> string \<Rightarrow> string \<Rightarrow> string \<Rightarrow> string \<Rightarrow> string list
   \<Rightarrow> error list \<times> effect list \<Rightarrow> error list \<times> effect list" where
  "runNetworks E cID eth0IP port destinationPort [] acc = acc"
| "runNetworks E cID eth0IP port destinationPort (network # networks) (allErrs, tr) =
     (let chainName = MustFormatChainNameWithPrefix E network cID ''DN-'';
          iptableCmd = iptablesArgs chainName destinationPort (eth0IP @ '':'' @ port)
      in runNetworks E cID eth0IP port destinationPort networks
           (case iptables E iptableCmd of
              (Some err, stderr) \<Rightarrow>
                (allErrs @ [IptablesRuleFailed iptableCmd err stderr], tr @ [Command iptableCmd])
            | (None, stderr) \<Rightarrow> (allErrs, tr @ [Command iptableCmd])))"

definition createLoopbackIPtablesRules ::
  "env \<Rightarrow> string list \<Rightarrow> string \<Rightarrow> string \<Rightarrow> string \<Rightarrow> string \<Rightarrow> string
   \<Rightarrow> error option \<times> effect list" where
  "createLoopbackIPtablesRules E networks containerID namespace pid port destinationPort =
     (case extractIPAddress E pid of
        Inl err \<Rightarrow> (Some err, [Command (nsenterArgs pid)])
      | Inr eth0IP \<Rightarrow>
          (let cID = namespace @ ''-'' @ containerID;
               (allErrs, tr) =
                  runNetworks E cID eth0IP port destinationPort networks
                    ([], [Command (nsenterArgs pid)])
           in (if length allErrs \<noteq> 0 then Some (Joined allErrs) else None, tr)))"

text \<open>The two nested iterations of \<open>execIptablesRules\<close>: over the bindings of a port, and over the ports.\<close>

fun execBindings ::
  "env \<Rightarrow> string list \<Rightarrow> string \<Rightarrow> string \<Rightarrow> string \<Rightarrow> string \<Rightarrow> PortBinding list
   \<Rightarrow> error list \<times> effect list \<Rightarrow> error list \<times> effect list" where
  "execBindings E networks containerID namespace pid port [] acc = acc"
| "execBindings E networks containerID namespace pid port (portBinding # rest) (errs, tr) =
     (if HostIP portBinding = ''127.0.0.1''
      then (case createLoopbackIPtablesRules E networks containerID namespace pid port
                   (HostPort portBinding) of
              (Some err, tr') \<Rightarrow>
                execBindings E networks containerID namespace pid port rest
                  (errs @ [err], tr @ tr')
            | (None, tr') \<Rightarrow>
                execBindings E networks containerID namespace pid port rest (errs, tr @ tr'))
      else execBindings E networks containerID namespace pid port rest (errs, tr))"

fun execPorts ::
  "env \<Rightarrow> string list \<Rightarrow> string \<Rightarrow> string \<Rightarrow> string \<Rightarrow> PortMap
   \<Rightarrow> error list \<times> effect list \<Rightarrow> error list \<times> effect list" where
  "execPorts E networks containerID namespace pid [] acc = acc"
| "execPorts E networks containerID namespace pid ((portProto, portBindings) # rest) acc =
     execPorts E networks containerID namespace pid rest
       (execBindings E networks containerID namespace pid (Port_Port portProto) portBindings acc)"

definition execIptablesRules ::
  "env \<Rightarrow> PortMap \<Rightarrow> string \<Rightarrow> string \<Rightarrow> string \<Rightarrow> string \<Rightarrow> error option \<times> effect list" where
  "execIptablesRules E portMappings containerID networks namespace pid =
     (case unmarshalNetworks E networks of
        Inl err \<Rightarrow> (Some (Joined [UnmarshalNetworks err]), [])
      | Inr containerNetworks \<Rightarrow>
          (let (errs, tr) =
                 execPorts E containerNetworks containerID namespace pid portMappings ([], [])
           in (if length errs \<noteq> 0 then Some (ErrExecIptablesRule errs) else None, tr)))"

section \<open>The event handlers\<close>

text \<open>The call \<open>e.portTracker.Add(id, ports)\<close> with its error logged.\<close>

definition trackerAdd :: "string \<Rightarrow> PortMap \<Rightarrow> world \<Rightarrow> world" where
  "trackerAdd cid ports w =
     (let (t, err) = portTracker_Add (portTracker w) cid ports
      in logErr LogTrackerAdd err (emit [TrackerAdd cid ports] (w\<lparr>portTracker := t\<rparr>)))"

definition trackerRemove :: "string \<Rightarrow> world \<Rightarrow> world" where
  "trackerRemove cid w =
     (let (t, err) = portTracker_Remove (portTracker w) cid
      in logErr LogTrackerRemove err (emit [TrackerRemove cid] (w\<lparr>portTracker := t\<rparr>)))"

text \<open>The call of \<open>execIptablesRules\<close> with its error logged, as both call sites have it.\<close>

definition runIptablesRules ::
  "env \<Rightarrow> PortMap \<Rightarrow> string \<Rightarrow> string \<Rightarrow> string \<Rightarrow> string \<Rightarrow> world \<Rightarrow> world" where
  "runIptablesRules E ports containerID networks namespace pid w =
     (let (err, tr) = execIptablesRules E ports containerID networks namespace pid
      in logErr LogIptables err (emit tr w))"

definition handleTaskStart :: "env \<Rightarrow> envelope \<Rightarrow> world \<Rightarrow> world" where
  "handleTaskStart E envelope w =
     (let (startTask, err) = unmarshalTaskStart E (Event envelope);
          w1 = logErr LogUnmarshalStart err w;
          (labels, err) = containerGet E (ContainerID startTask);
          w2 = logErr LogGetContainer err w1;
          r = createPortMappingFromString E (label labels portsKey);
          w3 = logErr LogPortMapping (errOf r) w2;
          ports = portsOf r
      in if length ports = 0 then w3
         else trackerAdd (ContainerID startTask) ports
                (runIptablesRules E ports (ContainerID startTask) (label labels networkKey)
                   (Namespace envelope) (Itoa (uint (Pid startTask))) w3))"

definition handleContainerUpdate :: "env \<Rightarrow> envelope \<Rightarrow> world \<Rightarrow> world" where
  "handleContainerUpdate E envelope w =
     (let (cuID, err) = unmarshalContainerUpdate E (Event envelope);
          w1 = logErr LogUnmarshalUpdate err w;
          (labels, err) = containerGet E cuID;
          w2 = logErr LogGetContainer err w1;
          r = createPortMappingFromString E (label labels portsKey);
          w3 = logErr LogPortMapping (errOf r) w2;
          ports = portsOf r
      in if length ports = 0 then w3
         else (case portTracker_Get (portTracker w3) cuID of
                 Some existingPortMap \<Rightarrow>
                   if \<not> DeepEqual ports existingPortMap
                   then trackerAdd cuID ports (trackerRemove cuID w3)
                   else w3
               | None \<Rightarrow> trackerAdd cuID ports w3))"

definition handleTaskExit :: "env \<Rightarrow> envelope \<Rightarrow> world \<Rightarrow> world" where
  "handleTaskExit E envelope w =
     (let (exitID, err) = unmarshalTaskExit E (Event envelope);
          w1 = logErr LogUnmarshalExit err w
      in (case portTracker_Get (portTracker w1) exitID of
            Some portMapToDelete \<Rightarrow> trackerRemove exitID w1
          | None \<Rightarrow> w1))"

definition handleEnvelope :: "env \<Rightarrow> envelope \<Rightarrow> world \<Rightarrow> world" where
  "handleEnvelope E envelope w =
     (if Topic envelope = ''/tasks/start'' then handleTaskStart E envelope w
      else if Topic envelope = ''/containers/update'' then handleContainerUpdate E envelope w
      else if Topic envelope = ''/tasks/exit'' then handleTaskExit E envelope w
      else w)"

text \<open>
  What the \<open>select\<close> of \<open>MonitorPorts\<close> receives: the context is done, a message, or an
  error of the subscription. The loop runs over the items delivered; the first and the
  last kind end it. The source starts the startup reconciler as a goroutine of its own
  before the loop; it is the function \<open>initializeRunningContainers\<close> below, and how the two
  interleave is not modelled.
\<close>

datatype incoming = CtxDone error | Message envelope | SubscriptionError error

fun MonitorPorts :: "env \<Rightarrow> incoming list \<Rightarrow> world \<Rightarrow> world" where
  "MonitorPorts E [] w = w"
| "MonitorPorts E (CtxDone err # rest) w = logErr LogContextCancellation (Some err) w"
| "MonitorPorts E (Message envelope # rest) w = MonitorPorts E rest (handleEnvelope E envelope w)"
| "MonitorPorts E (SubscriptionError err # rest) w = logErr LogReceiving (Some err) w"

section \<open>The startup reconciler\<close>

text \<open>The body of the loop of \<open>initializeRunningContainers\<close>, for one container.\<close>

definition reconcileContainer :: "env \<Rightarrow> rcontainer \<Rightarrow> world \<Rightarrow> world" where
  "reconcileContainer E c w =
     (if length (case portTracker_Get (portTracker w) (container_ID c) of
                   None \<Rightarrow> [] | Some existing \<Rightarrow> existing) \<noteq> 0
      then w
      else (case container_Task c of
              Inl err \<Rightarrow> logErr LogTask (Some err) w
            | Inr t \<Rightarrow>
                (case task_Status t of
                   Inl err \<Rightarrow> logErr LogStatus (Some err) w
                 | Inr status \<Rightarrow>
                     if status \<noteq> Running then w
                     else (case container_Labels c of
                             Inl err \<Rightarrow> logErr LogLabels (Some err) w
                           | Inr labels \<Rightarrow>
                               (let r = createPortMappingFromString E (label labels portsKey);
                                    w1 = logErr LogPortMapping (errOf r) w;
                                    ports = portsOf r
                                in if length ports = 0 then w1
                                   else trackerAdd (container_ID c) ports
                                          (runIptablesRules E ports (container_ID c)
                                             (label labels networkKey)
                                             (label labels namespaceKey)
                                             (Itoa (uint (task_Pid t))) w1))))))"

fun reconcileAll :: "env \<Rightarrow> rcontainer list \<Rightarrow> world \<Rightarrow> world" where
  "reconcileAll E [] w = w"
| "reconcileAll E (c # cs) w = reconcileAll E cs (reconcileContainer E c w)"

definition initializeRunningContainers :: "env \<Rightarrow> world \<Rightarrow> world" where
  "initializeRunningContainers E w =
     (case Containers E of
        Inl err \<Rightarrow> logErr LogContainers (Some err) w
      | Inr containers \<Rightarrow> reconcileAll E containers w)"

section \<open>Predicates used to state the properties\<close>

text \<open>One to three decimal digits.\<close>

definition is_octet :: "string \<Rightarrow> bool" where
  "is_octet s = (1 \<le> length s \<and> length s \<le> 3 \<and> list_all is_digit s)"

text \<open>A bare dotted quad: four such groups with dots between them and nothing else.\<close>

definition bare_ipv4 :: "string \<Rightarrow> bool" where
  "bare_ipv4 ip =
     (\<exists>a b c d. ip = a @ ''.'' @ b @ ''.'' @ c @ ''.'' @ d
        \<and> is_octet a \<and> is_octet b \<and> is_octet c \<and> is_octet d)"

text \<open>
  The pattern of the resolver, read as a description of the probe output: somewhere in it
  stand the word \<open>inet\<close> (not glued to a word character before it), blanks, the address,
  a slash and a digit.
\<close>

definition inet_match :: "string \<Rightarrow> string \<Rightarrow> bool" where
  "inet_match out ip =
     (\<exists>pre ws q post.
        out = pre @ ''inet'' @ ws @ ip @ ''/'' @ q # post
        \<and> (pre = [] \<or> \<not> is_word (last pre))
        \<and> ws \<noteq> [] \<and> list_all is_space ws
        \<and> bare_ipv4 ip \<and> is_digit q)"

text \<open>What a handler added to the trace.\<close>

definition new_effects :: "world \<Rightarrow> world \<Rightarrow> effect list" where
  "new_effects w w' = drop (length (trace w)) (trace w')"

section \<open>A concrete environment\<close>

text \<open>
  Six containers of namespace \<open>default\<close>. The labels are written without the quotation
  marks of JSON; the two label decoders of this environment know exactly these labels
  and reject every other text. The chain name is a readable stand-in for the hash the
  CNI helper computes. The firewall command fails on the chains of network \<open>broken\<close>.
\<close>

definition P1 :: string where
  "P1 = ''[{HostPort:8080,ContainerPort:80,Protocol:tcp,HostIP:127.0.0.1}]''"

definition P5 :: string where
  "P5 = ''[{HostPort:8080,ContainerPort:80,Protocol:tcp,HostIP:127.0.0.1},{HostPort:8081,ContainerPort:80,Protocol:tcp,HostIP:10.0.0.5}]''"

definition P6 :: string where
  "P6 = ''[{HostPort:5353,ContainerPort:53,Protocol:udp,HostIP:127.0.0.1}]''"

definition P7 :: string where
  "P7 = ''[{HostPort:8081,ContainerPort:80,Protocol:tcp,HostIP:10.0.0.5},{HostPort:8080,ContainerPort:80,Protocol:tcp,HostIP:127.0.0.1}]''"

definition demoPorts :: "string \<Rightarrow> error + Port list" where
  "demoPorts s =
     (if s = P1 then
        Inr [\<lparr>port_HostPort = 8080, port_ContainerPort = 80, port_Protocol = ''tcp'',
              port_HostIP = ''127.0.0.1''\<rparr>]
      else if s = P5 then
        Inr [\<lparr>port_HostPort = 8080, port_ContainerPort = 80, port_Protocol = ''tcp'',
              port_HostIP = ''127.0.0.1''\<rparr>,
             \<lparr>port_HostPort = 8081, port_ContainerPort = 80, port_Protocol = ''tcp'',
              port_HostIP = ''10.0.0.5''\<rparr>]
      else if s = P6 then
        Inr [\<lparr>port_HostPort = 5353, port_ContainerPort = 53, port_Protocol = ''udp'',
              port_HostIP = ''127.0.0.1''\<rparr>]
      else if s = P7 then
        Inr [\<lparr>port_HostPort = 8081, port_ContainerPort = 80, port_Protocol = ''tcp'',
              port_HostIP = ''10.0.0.5''\<rparr>,
             \<lparr>port_HostPort = 8080, port_ContainerPort = 80, port_Protocol = ''tcp'',
              port_HostIP = ''127.0.0.1''\<rparr>]
      else if s = ''[]'' then Inr []
      else Inl (JSONError ''invalid character''))"

definition demoNetworks :: "string \<Rightarrow> error + string list" where
  "demoNetworks s =
     (if s = ''[bridge]'' then Inr [''bridge'']
      else if s = ''[bridge,broken,backend]'' then Inr [''bridge'', ''broken'', ''backend'']
      else Inl (JSONError ''invalid character''))"

definition demoLabels :: "string \<Rightarrow> (string \<rightharpoonup> string) option" where
  "demoLabels cid =
     (if cid = ''c1'' \<or> cid = ''c2'' then
        Some [''nerdctl/ports'' \<mapsto> P1, ''nerdctl/networks'' \<mapsto> ''[bridge]'',
              ''nerdctl/namespace'' \<mapsto> ''default'']
      else if cid = ''c3'' then
        Some [''nerdctl/ports'' \<mapsto> ''{HostPort'', ''nerdctl/networks'' \<mapsto> ''[bridge]'',
              ''nerdctl/namespace'' \<mapsto> ''default'']
      else if cid = ''c4'' then
        Some [''nerdctl/ports'' \<mapsto> P1, ''nerdctl/networks'' \<mapsto> ''[bridge,broken,backend]'',
              ''nerdctl/namespace'' \<mapsto> ''default'']
      else if cid = ''c5'' then
        Some [''nerdctl/ports'' \<mapsto> P5, ''nerdctl/networks'' \<mapsto> ''[bridge]'',
              ''nerdctl/namespace'' \<mapsto> ''default'']
      else if cid = ''c6'' then
        Some [''nerdctl/ports'' \<mapsto> P6, ''nerdctl/networks'' \<mapsto> ''[bridge]'',
              ''nerdctl/namespace'' \<mapsto> ''default'']
      else if cid = ''c7'' then
        Some [''nerdctl/ports'' \<mapsto> P7, ''nerdctl/networks'' \<mapsto> ''[bridge]'',
              ''nerdctl/namespace'' \<mapsto> ''default'']
      else None)"

definition demoOutput :: string where
  "demoOutput = ''2: eth0    inet 10.4.0.22/24 brd 10.4.0.255 scope global eth0''"

definition demoContainer :: "string \<Rightarrow> rcontainer" where
  "demoContainer cid =
     \<lparr>container_ID = cid,
      container_Task = Inr \<lparr>task_Pid = 4242, task_Status = Inr Running\<rparr>,
      container_Labels =
        (case demoLabels cid of
           None \<Rightarrow> Inl (ClientError ''not found'')
         | Some labels \<Rightarrow> Inr labels)\<rparr>"

definition demoEnv :: env where
  "demoEnv =
     \<lparr>unmarshalTaskStart = (\<lambda>b. (\<lparr>ContainerID = b, Pid = 4242\<rparr>, None)),
      unmarshalContainerUpdate = (\<lambda>b. (b, None)),
      unmarshalTaskExit = (\<lambda>b. (b, None)),
      containerGet =
        (\<lambda>cid. case demoLabels cid of
                  None \<Rightarrow> (Map.empty, Some (ClientError ''not found''))
                | Some labels \<Rightarrow> (labels, None)),
      unmarshalPorts = demoPorts,
      unmarshalNetworks = demoNetworks,
      MustFormatChainNameWithPrefix =
        (\<lambda>network cID prefix. ''CNI-'' @ prefix @ network @ ''.'' @ cID),
      nsenter =
        (\<lambda>argv. if argv = nsenterArgs ''4242'' then (demoOutput, None)
                 else if argv = nsenterArgs ''7'' then (''2: eth0    inet6 fe80::1/64'', None)
                 else ([], Some (ExitError 1))),
      iptables =
        (\<lambda>argv. if argv ! 4 = ''CNI-DN-broken.default-c4''
                 then (Some (ExitError 1), ''No chain/target/match by that name'')
                 else (None, [])),
      Containers = Inr [demoContainer ''c2'']\<rparr>"

text \<open>The event of topic \<open>topic\<close> about container \<open>cid\<close>, in namespace \<open>default\<close>.\<close>

definition demoEvent :: "string \<Rightarrow> string \<Rightarrow> envelope" where
  "demoEvent topic cid = \<lparr>Topic = topic, Namespace = ''default'', Event = cid\<rparr>"

definition emptyWorld :: world where
  "emptyWorld = \<lparr>portTracker = Map.empty, trace = []\<rparr>"

section \<open>The commands the synchronizer is expected to run\<close>

text \<open>The firewall command for one network of a container.\<close>

definition networkCmd ::
  "env \<Rightarrow> string \<Rightarrow> string \<Rightarrow> string \<Rightarrow> string \<Rightarrow> string \<Rightarrow> string list" where
  "networkCmd E cID ip port destinationPort network =
     [''iptables'',
      ''--table'', ''nat'',
      ''--append'', MustFormatChainNameWithPrefix E network cID ''DN-'',
      ''--protocol'', ''tcp'',
      ''--destination'', ''0.0.0.0/0'',
      ''--jump'', ''DNAT'',
      ''--dport'', destinationPort,
      ''--to-destination'', ip @ '':'' @ port]"

text \<open>The failure a command leaves behind: none when it succeeds.\<close>

definition cmdFailure :: "env \<Rightarrow> string list \<Rightarrow> error list" where
  "cmdFailure E cmd =
     (case iptables E cmd of
        (Some err, stderr) \<Rightarrow> [IptablesRuleFailed cmd err stderr]
      | (None, stderr) \<Rightarrow> [])"

text \<open>What the synchronizer is expected to run for one binding of a port.\<close>

definition bindingEffects ::
  "env \<Rightarrow> string list \<Rightarrow> string \<Rightarrow> string \<Rightarrow> string \<Rightarrow> string \<Rightarrow> PortBinding \<Rightarrow> effect list" where
  "bindingEffects E nets cID pid ip port b =
     (if HostIP b = ''127.0.0.1''
      then Command (nsenterArgs pid)
           # map (\<lambda>n. Command (networkCmd E cID ip port (HostPort b) n)) nets
      else [])"

section \<open>Predicates about the startup reconciler\<close>

text \<open>The tracker holds no empty record: the spec's \<open>Tracked(mappings)\<close> has a non-empty set.\<close>

definition tracker_ok :: "tracker \<Rightarrow> bool" where
  "tracker_ok t = (\<forall>cid. t cid \<noteq> Some [])"

text \<open>
  What the runtime says about a container makes the reconciler go as far as the firewall
  rules: its task and status can be read, it is running, its labels can be read and carry
  a non-empty mapping set.
\<close>

definition needsRules :: "env \<Rightarrow> rcontainer \<Rightarrow> bool" where
  "needsRules E c =
     (case container_Task c of
        Inl _ \<Rightarrow> False
      | Inr t \<Rightarrow>
          (case task_Status t of
             Inl _ \<Rightarrow> False
           | Inr status \<Rightarrow>
               status = Running \<and>
               (case container_Labels c of
                  Inl _ \<Rightarrow> False
                | Inr labels \<Rightarrow>
                    portsOf (createPortMappingFromString E (label labels portsKey)) \<noteq> [])))"

definition settled :: "env \<Rightarrow> tracker \<Rightarrow> rcontainer \<Rightarrow> bool" where
  "settled E t c =
     (\<not> needsRules E c \<or> (\<exists>pm. t (container_ID c) = Some pm \<and> pm \<noteq> []))"

section \<open>Host address normalisation: properties\<close>

lemma NormalizeHostIP_other:
  "ip \<noteq> ''localhost'' \<Longrightarrow>
   NormalizeHostIP ip = (if ip = ''127.0.0.1'' then ''127.0.0.1'' else ''0.0.0.0'')"
  by (simp add: NormalizeHostIP_def)

text \<open>
  C2. The normaliser hands the literal \<open>localhost\<close> back unchanged: its result there is
  neither \<open>127.0.0.1\<close> nor \<open>0.0.0.0\<close>. On every other input it behaves as documented.
\<close>

theorem NormalizeHostIP_localhost:
  "NormalizeHostIP ''localhost'' = ''localhost''
   \<and> NormalizeHostIP ''localhost'' \<noteq> ''127.0.0.1''
   \<and> NormalizeHostIP ''localhost'' \<noteq> ''0.0.0.0''"
  by (simp add: NormalizeHostIP_def)

section \<open>The host address resolver: properties\<close>

lemma lit_Some: "lit p s = Some r \<longleftrightarrow> s = p @ r"
  by (auto simp: lit_def) (metis append_take_drop_id)

lemma blanks_Some:
  "blanks s = Some r \<Longrightarrow> \<exists>ws. s = ws @ r \<and> ws \<noteq> [] \<and> list_all is_space ws"
  unfolding blanks_def
  by (rule exI [of _ "takeWhile is_space s"])
     (auto simp: list_all_iff split: if_splits dest: set_takeWhileD)

lemma octet_Some: "octet s = Some (a, r) \<Longrightarrow> s = a @ r \<and> is_octet a"
  unfolding octet_def is_octet_def Let_def
  by (auto simp: list_all_iff split: if_splits dest: set_takeWhileD)

lemma takeWhile_run:
  "list_all P a \<Longrightarrow> r = [] \<or> \<not> P (hd r) \<Longrightarrow> takeWhile P (a @ r) = a"
  by (cases r) (auto simp: list_all_iff takeWhile_append2)

lemma dropWhile_run:
  "list_all P a \<Longrightarrow> r = [] \<or> \<not> P (hd r) \<Longrightarrow> dropWhile P (a @ r) = r"
  by (cases r) (auto simp: list_all_iff dropWhile_append2)

lemma blanks_append:
  "ws \<noteq> [] \<Longrightarrow> list_all is_space ws \<Longrightarrow> r = [] \<or> \<not> is_space (hd r)
   \<Longrightarrow> blanks (ws @ r) = Some r"
  by (simp add: blanks_def takeWhile_run dropWhile_run)

lemma octet_append:
  "is_octet a \<Longrightarrow> r = [] \<or> \<not> is_digit (hd r) \<Longrightarrow> octet (a @ r) = Some (a, r)"
  by (simp add: octet_def is_octet_def takeWhile_run dropWhile_run)

lemma digit_not_space: "is_digit c \<Longrightarrow> \<not> is_space c"
  by (auto simp: is_digit_def is_space_def)

lemma is_word_i: "is_word CHR ''i''"
  by (simp add: is_word_def)

lemma not_digit_dot: "\<not> is_digit CHR ''.''" "\<not> is_digit CHR ''/''"
  by (simp_all add: is_digit_def)

lemma match_inet_sound:
  assumes "match_inet s = Some ip"
  shows "\<exists>ws q post. s = ''inet'' @ ws @ ip @ ''/'' @ q # post
           \<and> ws \<noteq> [] \<and> list_all is_space ws \<and> bare_ipv4 ip \<and> is_digit q"
proof -
  from assms obtain s1 s2 a s3 s4 b s5 s6 c s7 s8 d s9 s10 where
    1: "lit ''inet'' s = Some s1" and 2: "blanks s1 = Some s2"
    and 3: "octet s2 = Some (a, s3)" and 4: "lit ''.'' s3 = Some s4"
    and 5: "octet s4 = Some (b, s5)" and 6: "lit ''.'' s5 = Some s6"
    and 7: "octet s6 = Some (c, s7)" and 8: "lit ''.'' s7 = Some s8"
    and 9: "octet s8 = Some (d, s9)" and 10: "lit ''/'' s9 = Some s10"
    and 11: "(case s10 of [] \<Rightarrow> None
              | x # _ \<Rightarrow> if is_digit x then Some (a @ ''.'' @ b @ ''.'' @ c @ ''.'' @ d)
                         else None) = Some ip"
    unfolding match_inet_def
    by (auto simp: bind_eq_Some_conv)
  from 11 obtain q post where s10: "s10 = q # post" and q: "is_digit q"
    and ip: "ip = a @ ''.'' @ b @ ''.'' @ c @ ''.'' @ d"
    by (auto split: list.splits if_splits)
  from 2 obtain ws where ws: "s1 = ws @ s2" "ws \<noteq> []" "list_all is_space ws"
    using blanks_Some by blast
  have oct: "is_octet a" "is_octet b" "is_octet c" "is_octet d"
    using 3 5 7 9 octet_Some by blast+
  have "s = ''inet'' @ ws @ ip @ ''/'' @ q # post"
    using 1 4 6 8 10 ws(1) octet_Some [OF 3] octet_Some [OF 5] octet_Some [OF 7]
      octet_Some [OF 9] s10 ip
    by (simp add: lit_Some)
  moreover have "bare_ipv4 ip"
    unfolding bare_ipv4_def using ip oct by blast
  ultimately show ?thesis using ws q by blast
qed

lemma is_octet_hd: "is_octet a \<Longrightarrow> a \<noteq> [] \<and> is_digit (hd a)"
  by (cases a) (auto simp: is_octet_def)

lemma match_inet_complete:
  assumes "ws \<noteq> []" "list_all is_space ws" "bare_ipv4 ip" "is_digit q"
  shows "match_inet (''inet'' @ ws @ ip @ ''/'' @ q # post) = Some ip"
proof -
  from assms(3) obtain a b c d where
    ip: "ip = a @ ''.'' @ b @ ''.'' @ c @ ''.'' @ d"
    and oct: "is_octet a" "is_octet b" "is_octet c" "is_octet d"
    unfolding bare_ipv4_def by blast
  let ?r9 = "''/'' @ q # post"
  let ?r7 = "''.'' @ d @ ?r9"
  let ?r5 = "''.'' @ c @ ?r7"
  let ?r3 = "''.'' @ b @ ?r5"
  have 1: "lit ''inet'' (''inet'' @ ws @ ip @ ?r9) = Some (ws @ a @ ?r3)"
    by (simp add: lit_Some ip)
  have 2: "blanks (ws @ a @ ?r3) = Some (a @ ?r3)"
    using assms(1,2) is_octet_hd [OF oct(1)]
    by (intro blanks_append) (auto simp: digit_not_space)
  have 3: "octet (a @ ?r3) = Some (a, ?r3)"
    by (intro octet_append oct) (simp add: not_digit_dot)
  have 5: "octet (b @ ?r5) = Some (b, ?r5)"
    by (intro octet_append oct) (simp add: not_digit_dot)
  have 7: "octet (c @ ?r7) = Some (c, ?r7)"
    by (intro octet_append oct) (simp add: not_digit_dot)
  have 9: "octet (d @ ?r9) = Some (d, ?r9)"
    by (intro octet_append oct) (simp add: not_digit_dot)
  have l: "\<And>x r. lit [x] (x # r) = Some r"
    by (simp add: lit_def)
  show ?thesis
    unfolding match_inet_def 1
    using 2 3 5 7 9 assms(4) by (simp add: l ip)
qed

lemma find_inet_sound:
  "find_inet prev s = Some ip \<Longrightarrow>
   \<exists>pre rest. s = pre @ rest \<and> match_inet rest = Some ip
     \<and> word_boundary (if pre = [] then prev else Some (last pre)) rest"
proof (induction prev s rule: find_inet.induct)
  case (1 prev)
  then show ?case by simp
next
  case (2 prev c cs)
  show ?case
  proof (cases "if word_boundary prev (c # cs) then match_inet (c # cs) else None")
    case (Some ip')
    with "2.prems" have "word_boundary prev (c # cs)" "match_inet (c # cs) = Some ip"
      by (auto split: if_splits)
    then show ?thesis by (intro exI [of _ "[]"] exI [of _ "c # cs"]) simp
  next
    case None
    with "2.prems" have "find_inet (Some c) cs = Some ip"
      by simp
    with None obtain pre rest where
      "cs = pre @ rest" "match_inet rest = Some ip"
      "word_boundary (if pre = [] then Some c else Some (last pre)) rest"
      using "2.IH" by blast
    then show ?thesis
      by (intro exI [of _ "c # pre"] exI [of _ rest]) auto
  qed
qed

lemma find_inet_complete:
  "match_inet rest = Some ip \<Longrightarrow>
   word_boundary (if pre = [] then prev else Some (last pre)) rest \<Longrightarrow>
   find_inet prev (pre @ rest) \<noteq> None"
proof (induction pre arbitrary: prev)
  case Nil
  then show ?case by (cases rest) (auto simp: match_inet_def lit_def)
next
  case (Cons c pre)
  have "find_inet (Some c) (pre @ rest) \<noteq> None"
    using Cons.prems by (intro Cons.IH) (auto split: if_splits)
  then show ?case by (auto split: option.splits)
qed

text \<open>
  C8. Given the probe's output and exit status, the resolver returns the bare IPv4
  address of the leftmost place where the output matches the pattern
  \<open>inet <ipv4>/<prefixlen>\<close>. It fails in two ways that cannot be confused: with the
  execution error of the probe when the probe failed, and with \<open>ErrIPAddressNotFound\<close>
  when the probe succeeded and no place of the output matches the pattern.
\<close>

theorem extractIPAddress_outcomes:
  assumes "nsenter E (nsenterArgs pid) = (out, status)"
  shows "(case extractIPAddress E pid of
            Inr ip \<Rightarrow> status = None \<and> inet_match out ip
          | Inl e \<Rightarrow>
              (case status of
                 Some x \<Rightarrow> e = ExecFailed x
               | None \<Rightarrow> e = ErrIPAddressNotFound \<and> (\<forall>ip. \<not> inet_match out ip)))
         \<and> (\<forall>x. ExecFailed x \<noteq> ErrIPAddressNotFound)"
proof (cases status)
  case (Some x)
  with assms show ?thesis by (simp add: extractIPAddress_def)
next
  case None
  show ?thesis
  proof (cases "find_inet None out")
    case (Some ip)
    then obtain pre rest where pr: "out = pre @ rest" "match_inet rest = Some ip"
      "word_boundary (if pre = [] then None else Some (last pre)) rest"
      using find_inet_sound by blast
    from match_inet_sound [OF pr(2)] obtain ws q post where
      r: "rest = ''inet'' @ ws @ ip @ ''/'' @ q # post" "ws \<noteq> []" "list_all is_space ws"
         "bare_ipv4 ip" "is_digit q"
      by blast
    have "pre = [] \<or> \<not> is_word (last pre)"
      using pr(3) r(1) by (auto simp: word_boundary_def is_word_i split: if_splits)
    then have "inet_match out ip"
      unfolding inet_match_def using pr(1) r by blast
    with assms None Some show ?thesis by (simp add: extractIPAddress_def)
  next
    case nf: None
    have "\<not> inet_match out ip" for ip
    proof
      assume "inet_match out ip"
      then obtain pre ws q post where
        d: "out = pre @ ''inet'' @ ws @ ip @ ''/'' @ q # post"
           "pre = [] \<or> \<not> is_word (last pre)" "ws \<noteq> []" "list_all is_space ws"
           "bare_ipv4 ip" "is_digit q"
        unfolding inet_match_def by blast
      have m: "match_inet (''inet'' @ ws @ ip @ ''/'' @ q # post) = Some ip"
        using d by (intro match_inet_complete)
      have "word_boundary (if pre = [] then None else Some (last pre))
              (''inet'' @ ws @ ip @ ''/'' @ q # post)"
        using d(2) by (auto simp: word_boundary_def is_word_i)
      from find_inet_complete [OF m this] nf d(1) show False by simp
    qed
    with assms None nf show ?thesis by (simp add: extractIPAddress_def)
  qed
qed

theorem extractIPAddress_outcomes_witness:
  "extractIPAddress demoEnv ''4242'' = Inr ''10.4.0.22''
   \<and> inet_match demoOutput ''10.4.0.22''
   \<and> extractIPAddress demoEnv ''7'' = Inl ErrIPAddressNotFound
   \<and> extractIPAddress demoEnv ''13'' = Inl (ExecFailed (ExitError 1))"
proof -
  have n: "nsenter demoEnv (nsenterArgs ''4242'') = (demoOutput, None)"
    by (simp add: demoEnv_def)
  have n13: "nsenter demoEnv (nsenterArgs ''13'') = ([], Some (ExitError 1))"
    by (simp add: demoEnv_def nsenterArgs_def)
  have e: "extractIPAddress demoEnv ''4242'' = Inr ''10.4.0.22''"
    by code_simp
  have e7: "extractIPAddress demoEnv ''7'' = Inl ErrIPAddressNotFound"
    by code_simp
  show ?thesis
    using extractIPAddress_outcomes [OF n] extractIPAddress_outcomes [OF n13] e e7
    by (simp split: sum.splits)
qed

section \<open>Facts about the concrete environment\<close>

lemma demo_extract: "extractIPAddress demoEnv ''4242'' = Inr ''10.4.0.22''"
  by code_simp

lemma demo_fields:
  "unmarshalTaskStart demoEnv b = (\<lparr>ContainerID = b, Pid = 4242\<rparr>, None)"
  "unmarshalContainerUpdate demoEnv b = (b, None)"
  "unmarshalTaskExit demoEnv b = (b, None)"
  "containerGet demoEnv cid =
     (case demoLabels cid of
        None \<Rightarrow> (Map.empty, Some (ClientError ''not found''))
      | Some labels \<Rightarrow> (labels, None))"
  "unmarshalPorts demoEnv = demoPorts"
  "unmarshalNetworks demoEnv = demoNetworks"
  "MustFormatChainNameWithPrefix demoEnv network cID prefix
     = ''CNI-'' @ prefix @ network @ ''.'' @ cID"
  "iptables demoEnv argv =
     (if argv ! 4 = ''CNI-DN-broken.default-c4''
      then (Some (ExitError 1), ''No chain/target/match by that name'')
      else (None, []))"
  "Containers demoEnv = Inr [demoContainer ''c2'']"
  by (simp_all add: demoEnv_def)

lemmas demo_defs =
  demo_fields demoPorts_def demoNetworks_def demoLabels_def demoEvent_def emptyWorld_def
  demoContainer_def P1_def P5_def P6_def P7_def

lemmas extractor_defs =
  createPortMappingFromString_def NewPort_def ParseUint16_def Itoa_def digits.simps
  digit_char_def digit_val_def is_digit_def NormalizeHostIP_def Port_Port_def

lemma demo_P6:
  "createPortMappingFromString demoEnv P6
   = Inr [(''53/udp'', [\<lparr>HostIP = ''127.0.0.1'', HostPort = ''5353''\<rparr>])]"
  by (simp add: demo_defs extractor_defs)

lemma demo_P1:
  "createPortMappingFromString demoEnv P1
   = Inr [(''80/tcp'', [\<lparr>HostIP = ''127.0.0.1'', HostPort = ''8080''\<rparr>])]"
  by (simp add: demo_defs extractor_defs)

lemma demo_P5:
  "createPortMappingFromString demoEnv P5
   = Inr [(''80/tcp'', [\<lparr>HostIP = ''127.0.0.1'', HostPort = ''8080''\<rparr>,
                        \<lparr>HostIP = ''0.0.0.0'', HostPort = ''8081''\<rparr>])]"
  by (simp add: demo_defs extractor_defs)

lemma demo_P7:
  "createPortMappingFromString demoEnv P7
   = Inr [(''80/tcp'', [\<lparr>HostIP = ''0.0.0.0'', HostPort = ''8081''\<rparr>,
                        \<lparr>HostIP = ''127.0.0.1'', HostPort = ''8080''\<rparr>])]"
  by (simp add: demo_defs extractor_defs)

lemma demo_bridge: "unmarshalNetworks demoEnv ''[bridge]'' = Inr [''bridge'']"
  by (simp add: demo_defs)

section \<open>The firewall rule synchronizer: properties\<close>

lemma runNetworks_eq:
  "runNetworks E cID ip port dport networks (errs, tr) =
     (errs @ concat (map (\<lambda>n. cmdFailure E (networkCmd E cID ip port dport n)) networks),
      tr @ map (\<lambda>n. Command (networkCmd E cID ip port dport n)) networks)"
proof (induction networks arbitrary: errs tr)
  case Nil
  then show ?case by simp
next
  case (Cons n networks)
  have c: "iptablesArgs (MustFormatChainNameWithPrefix E n cID ''DN-'') dport (ip @ '':'' @ port)
           = networkCmd E cID ip port dport n"
    by (simp add: iptablesArgs_def networkCmd_def)
  show ?case
    unfolding runNetworks.simps Let_def c
    by (cases "iptables E (networkCmd E cID ip port dport n)")
       (auto simp: Cons.IH cmdFailure_def split: option.splits)
qed

lemma createLoopback_eq:
  assumes "extractIPAddress E pid = Inr ip"
  shows "createLoopbackIPtablesRules E networks containerID namespace pid port dport =
     (let failures = concat (map (\<lambda>n. cmdFailure E
                        (networkCmd E (namespace @ ''-'' @ containerID) ip port dport n)) networks)
      in (if failures = [] then None else Some (Joined failures),
          Command (nsenterArgs pid)
          # map (\<lambda>n. Command (networkCmd E (namespace @ ''-'' @ containerID) ip port dport n))
              networks))"
  using assms
  by (simp add: createLoopbackIPtablesRules_def runNetworks_eq Let_def)

lemma cmdFailure_empty: "cmdFailure E cmd = [] \<longleftrightarrow> fst (iptables E cmd) = None"
  by (cases "iptables E cmd") (auto simp: cmdFailure_def split: option.splits)

text \<open>
  C5. Once the container's address is resolved, the synchronizer runs the firewall command
  for every declared network, in order, whether or not an earlier one failed; a command
  that ran is never undone. The failures are collected, one per failing network, and the
  result is an error (the join of these failures) exactly when some network's command
  failed.
\<close>

theorem createLoopbackIPtablesRules_all_networks:
  assumes "extractIPAddress E pid = Inr ip"
  shows "snd (createLoopbackIPtablesRules E networks containerID namespace pid port dport)
           = Command (nsenterArgs pid)
             # map (\<lambda>n. Command (networkCmd E (namespace @ ''-'' @ containerID) ip port dport n))
                 networks
     \<and> (fst (createLoopbackIPtablesRules E networks containerID namespace pid port dport) \<noteq> None
          \<longleftrightarrow> (\<exists>n \<in> set networks.
                 fst (iptables E (networkCmd E (namespace @ ''-'' @ containerID) ip port dport n))
                 \<noteq> None))
     \<and> (\<forall>e. fst (createLoopbackIPtablesRules E networks containerID namespace pid port dport)
               = Some e
            \<longrightarrow> e = Joined (concat (map (\<lambda>n. cmdFailure E
                        (networkCmd E (namespace @ ''-'' @ containerID) ip port dport n))
                        networks)))"
  by (auto simp: createLoopback_eq [OF assms] Let_def cmdFailure_empty)

theorem createLoopbackIPtablesRules_all_networks_witness:
  "createLoopbackIPtablesRules demoEnv [''bridge'', ''broken'', ''backend''] ''c4'' ''default''
      ''4242'' ''80'' ''8080''
   = (Some (Joined [IptablesRuleFailed
         (networkCmd demoEnv ''default-c4'' ''10.4.0.22'' ''80'' ''8080'' ''broken'')
         (ExitError 1) ''No chain/target/match by that name'']),
      [Command (nsenterArgs ''4242''),
       Command (networkCmd demoEnv ''default-c4'' ''10.4.0.22'' ''80'' ''8080'' ''bridge''),
       Command (networkCmd demoEnv ''default-c4'' ''10.4.0.22'' ''80'' ''8080'' ''broken''),
       Command (networkCmd demoEnv ''default-c4'' ''10.4.0.22'' ''80'' ''8080'' ''backend'')])"
proof -
  have f: "iptables demoEnv (networkCmd demoEnv ''default-c4'' ''10.4.0.22'' ''80'' ''8080'' n)
           = (if n = ''broken'' then (Some (ExitError 1), ''No chain/target/match by that name'')
              else (None, []))" for n
    by (simp add: demoEnv_def networkCmd_def)
  obtain e tr where r: "createLoopbackIPtablesRules demoEnv [''bridge'', ''broken'', ''backend'']
      ''c4'' ''default'' ''4242'' ''80'' ''8080'' = (e, tr)"
    by (cases "createLoopbackIPtablesRules demoEnv [''bridge'', ''broken'', ''backend'']
      ''c4'' ''default'' ''4242'' ''80'' ''8080''")
  from createLoopbackIPtablesRules_all_networks [OF demo_extract,
      of "[''bridge'', ''broken'', ''backend'']" "''c4''" "''default''" "''80''" "''8080''"]
  show ?thesis
    unfolding r by (cases e) (simp_all add: f cmdFailure_def)
qed

lemma execBindings_snd:
  assumes "extractIPAddress E pid = Inr ip"
  shows "snd (execBindings E nets containerID namespace pid port bs (errs, tr))
         = tr @ concat (map (bindingEffects E nets (namespace @ ''-'' @ containerID) pid ip port) bs)"
proof (induction bs arbitrary: errs tr)
  case Nil
  then show ?case by simp
next
  case (Cons b bs)
  show ?case
  proof (cases "HostIP b = ''127.0.0.1''")
    case True
    then show ?thesis
      by (cases "createLoopbackIPtablesRules E nets containerID namespace pid port (HostPort b)")
         (use createLoopback_eq [OF assms, of nets containerID namespace port "HostPort b"] in
          \<open>auto simp: Cons.IH bindingEffects_def Let_def split: option.splits\<close>)
  next
    case False
    then show ?thesis by (simp add: Cons.IH bindingEffects_def)
  qed
qed

lemma execPorts_snd:
  assumes "extractIPAddress E pid = Inr ip"
  shows "snd (execPorts E nets containerID namespace pid pm acc)
         = snd acc @ concat (map (\<lambda>(k, bs). concat (map
              (bindingEffects E nets (namespace @ ''-'' @ containerID) pid ip (Port_Port k)) bs)) pm)"
proof (induction pm arbitrary: acc)
  case Nil
  then show ?case by simp
next
  case (Cons kb pm)
  obtain k bs where kb: "kb = (k, bs)" by (cases kb)
  obtain errs tr where acc: "acc = (errs, tr)" by (cases acc)
  show ?case
    unfolding kb acc execPorts.simps Cons.IH
    by (simp add: execBindings_snd [OF assms])
qed

lemma filter_bindingEffects:
  "filter is_iptables (bindingEffects E nets cID pid ip port b)
   = (if HostIP b = ''127.0.0.1''
      then map (\<lambda>n. Command (networkCmd E cID ip port (HostPort b) n)) nets else [])"
  by (simp add: bindingEffects_def nsenterArgs_def networkCmd_def filter_map o_def)

lemma execIptablesRules_snd:
  assumes "unmarshalNetworks E networks = Inr nets" "extractIPAddress E pid = Inr ip"
  shows "snd (execIptablesRules E pm containerID networks namespace pid)
         = concat (map (\<lambda>(k, bs). concat (map
              (bindingEffects E nets (namespace @ ''-'' @ containerID) pid ip (Port_Port k)) bs)) pm)"
proof -
  obtain errs tr where r: "execPorts E nets containerID namespace pid pm ([], []) = (errs, tr)"
    by (cases "execPorts E nets containerID namespace pid pm ([], [])")
  with execPorts_snd [OF assms(2), of nets containerID namespace pm "([], [])"]
  show ?thesis
    using assms(1) by (simp add: execIptablesRules_def)
qed

lemma digit_char_val: "d < 10 \<Longrightarrow> digit_val (digit_char d) = d \<and> is_digit (digit_char d) \<and> digit_char d \<noteq> CHR ''/''"
proof -
  assume "d < 10"
  then have "d \<in> {0, 1, 2, 3, 4, 5, 6, 7, 8, 9}" by auto
  then show ?thesis
    by (auto simp: digit_val_def digit_char_def is_digit_def)
qed

lemma digits_props:
  "list_all is_digit (digits n) \<and> digits n \<noteq> []
   \<and> foldl (\<lambda>a c. 10 * a + digit_val c) 0 (digits n) = n
   \<and> CHR ''/'' \<notin> set (digits n)"
proof (induction n rule: digits.induct)
  case (1 n)
  show ?case
  proof (cases "n < 10")
    case True
    then show ?thesis
      using digit_char_val [of n] by (subst (1 2 3 4) digits.simps) auto
  next
    case False
    then show ?thesis
      using "1.IH" digit_char_val [of "n mod 10"]
      by (subst (1 2 3 4) digits.simps) auto
  qed
qed

lemma ParseUint16_Itoa:
  "ParseUint16 (Itoa i) = (if 0 \<le> i \<and> i < 65536 then Some (nat i) else None)"
proof (cases "i < 0")
  case True
  then show ?thesis
    by (simp add: ParseUint16_def Itoa_def is_digit_def)
next
  case False
  then show ?thesis
    using digits_props [of "nat i"]
    by (auto simp: ParseUint16_def Itoa_def Let_def)
qed

lemma Port_Port_NewPort:
  "NewPort proto (Itoa cp) = Inr k \<Longrightarrow> k = Itoa cp @ ''/'' @ proto \<and> Port_Port k = Itoa cp"
proof -
  assume a: "NewPort proto (Itoa cp) = Inr k"
  then have r: "0 \<le> cp" "cp < 65536" "k = Itoa cp @ ''/'' @ proto"
    by (auto simp: NewPort_def ParseUint16_Itoa split: if_splits)
  have "takeWhile (\<lambda>c. c \<noteq> CHR ''/'') (digits (nat cp) @ ''/'' @ proto) = digits (nat cp)"
    using digits_props [of "nat cp"] by (subst takeWhile_append2) auto
  with r show ?thesis by (simp add: Port_Port_def Itoa_def)
qed

text \<open>
  C3 (as amended). When the networks label decodes and the container's address resolves,
  the firewall commands the synchronizer runs are exactly these: one for every stored
  binding whose \<open>HostIP\<close> is \<open>127.0.0.1\<close> and every declared network, each of the shape
  table \<open>nat\<close>, append to the chain of the network and of \<open><namespace>-<containerID>\<close>,
  protocol \<open>tcp\<close> (whatever protocol the mapping declares), destination \<open>0.0.0.0/0\<close>, jump
  \<open>DNAT\<close>, destination port the binding's host port, target \<open><resolvedIP>:<port>\<close> with the
  port part of the mapping's key, which for a key made by the extractor is the container
  port in decimal.
\<close>

theorem execIptablesRules_commands:
  assumes "unmarshalNetworks E networks = Inr nets" "extractIPAddress E pid = Inr ip"
  shows "filter is_iptables
           (snd (execIptablesRules E portMappings containerID networks namespace pid))
         = [Command [''iptables'',
                     ''--table'', ''nat'',
                     ''--append'',
                     MustFormatChainNameWithPrefix E n (namespace @ ''-'' @ containerID) ''DN-'',
                     ''--protocol'', ''tcp'',
                     ''--destination'', ''0.0.0.0/0'',
                     ''--jump'', ''DNAT'',
                     ''--dport'', HostPort b,
                     ''--to-destination'', ip @ '':'' @ Port_Port portProto].
            (portProto, bindings) \<leftarrow> portMappings, b \<leftarrow> bindings,
            HostIP b = ''127.0.0.1'', n \<leftarrow> nets]
     \<and> (\<forall>proto containerPort key.
           NewPort proto (Itoa containerPort) = Inr key \<longrightarrow> Port_Port key = Itoa containerPort)"
proof -
  have "filter is_iptables (concat (map (\<lambda>(k, bs). concat (map
              (bindingEffects E nets cID pid ip (Port_Port k)) bs)) pm))
        = concat (map (\<lambda>(k, bs). concat (map (\<lambda>b. if HostIP b = ''127.0.0.1''
              then map (\<lambda>n. Command (networkCmd E cID ip (Port_Port k) (HostPort b) n)) nets
              else []) bs)) pm)" for cID pm
    by (induction pm) (auto simp: filter_concat o_def filter_bindingEffects split: prod.splits)
  then have "filter is_iptables
           (snd (execIptablesRules E portMappings containerID networks namespace pid))
        = concat (map (\<lambda>(k, bs). concat (map (\<lambda>b. if HostIP b = ''127.0.0.1''
              then map (\<lambda>n. Command (networkCmd E (namespace @ ''-'' @ containerID) ip
                                    (Port_Port k) (HostPort b) n)) nets
              else []) bs)) portMappings)"
    by (simp only: execIptablesRules_snd [OF assms])
  moreover have "\<forall>proto containerPort key.
           NewPort proto (Itoa containerPort) = Inr key \<longrightarrow> Port_Port key = Itoa containerPort"
    using Port_Port_NewPort by blast
  ultimately show ?thesis
    unfolding networkCmd_def by simp
qed

theorem execIptablesRules_commands_witness:
  "filter is_iptables
     (snd (execIptablesRules demoEnv
             [(''80/tcp'', [\<lparr>HostIP = ''127.0.0.1'', HostPort = ''8080''\<rparr>,
                            \<lparr>HostIP = ''0.0.0.0'', HostPort = ''8081''\<rparr>])]
             ''c5'' ''[bridge]'' ''default'' ''4242''))
   = [Command [''iptables'', ''--table'', ''nat'', ''--append'', ''CNI-DN-bridge.default-c5'',
               ''--protocol'', ''tcp'', ''--destination'', ''0.0.0.0/0'', ''--jump'', ''DNAT'',
               ''--dport'', ''8080'', ''--to-destination'', ''10.4.0.22:80'']]"
  using execIptablesRules_commands [OF demo_bridge demo_extract,
      of "[(''80/tcp'', [\<lparr>HostIP = ''127.0.0.1'', HostPort = ''8080''\<rparr>,
                            \<lparr>HostIP = ''0.0.0.0'', HostPort = ''8081''\<rparr>])]" "''c5''" "''default''"]
  by (simp add: demo_fields Port_Port_def)

theorem execIptablesRules_protocol_counterexample:
  "createPortMappingFromString demoEnv P6
     = Inr [(''53/udp'', [\<lparr>HostIP = ''127.0.0.1'', HostPort = ''5353''\<rparr>])]
   \<and> filter is_iptables
       (snd (execIptablesRules demoEnv
               [(''53/udp'', [\<lparr>HostIP = ''127.0.0.1'', HostPort = ''5353''\<rparr>])]
               ''c6'' ''[bridge]'' ''default'' ''4242''))
     = [Command [''iptables'', ''--table'', ''nat'', ''--append'', ''CNI-DN-bridge.default-c6'',
                 ''--protocol'', ''tcp'', ''--destination'', ''0.0.0.0/0'', ''--jump'', ''DNAT'',
                 ''--dport'', ''5353'', ''--to-destination'', ''10.4.0.22:53'']]"
  by (simp add: demo_P6 execIptablesRules_snd [OF demo_bridge demo_extract]
        filter_bindingEffects networkCmd_def demo_fields Port_Port_def)

section \<open>The event handlers: properties\<close>

lemma trace_emit [simp]: "trace (emit es w) = trace w @ es"
  and tracker_emit [simp]: "portTracker (emit es w) = portTracker w"
  by (simp_all add: emit_def)

lemma trace_logErr [simp]:
  "trace (logErr site err w) = trace w @ (case err of None \<Rightarrow> [] | Some e \<Rightarrow> [Errorf site e])"
  and tracker_logErr [simp]: "portTracker (logErr site err w) = portTracker w"
  by (simp_all add: logErr_def split: option.splits)

lemma trace_trackerAdd:
  "trace (trackerAdd cid ports w)
   = trace w @ TrackerAdd cid ports
       # (case snd (portTracker_Add (portTracker w) cid ports) of
            None \<Rightarrow> [] | Some e \<Rightarrow> [Errorf LogTrackerAdd e])"
  and tracker_trackerAdd:
  "portTracker (trackerAdd cid ports w) = fst (portTracker_Add (portTracker w) cid ports)"
  by (simp_all add: trackerAdd_def split: prod.splits)

lemma trace_trackerRemove: "trace (trackerRemove cid w) = trace w @ [TrackerRemove cid]"
  and tracker_trackerRemove: "portTracker (trackerRemove cid w) = (portTracker w)(cid := None)"
  by (simp_all add: trackerRemove_def portTracker_Remove_def)

lemma trace_runIptablesRules:
  "trace (runIptablesRules E ports cid networks ns pid w)
   = trace w @ snd (execIptablesRules E ports cid networks ns pid)
       @ (case fst (execIptablesRules E ports cid networks ns pid) of
            None \<Rightarrow> [] | Some e \<Rightarrow> [Errorf LogIptables e])"
  and tracker_runIptablesRules:
  "portTracker (runIptablesRules E ports cid networks ns pid w) = portTracker w"
  by (simp_all add: runIptablesRules_def split: prod.splits)

lemma new_effectsI: "trace w' = trace w @ xs \<Longrightarrow> new_effects w w' = xs"
  by (simp add: new_effects_def)

lemma filter_log [simp]:
  "filter is_tracker_mutation (case err of None \<Rightarrow> [] | Some e \<Rightarrow> [Errorf site e]) = []"
  "filter is_command (case err of None \<Rightarrow> [] | Some e \<Rightarrow> [Errorf site e]) = []"
  "filter (\<lambda>e. is_tracker_mutation e \<or> is_command e)
     (case err of None \<Rightarrow> [] | Some e \<Rightarrow> [Errorf site e]) = []"
  by (simp_all split: option.splits)

lemma portTracker_Add_fresh:
  "ports \<noteq> [] \<Longrightarrow> t cid = None \<Longrightarrow> portTracker_Add t cid ports = (t(cid \<mapsto> ports), None)"
  by (simp add: portTracker_Add_def)

lemma handleTaskStart_trace:
  assumes "unmarshalTaskStart E (Event ev) = (st, uerr)"
    and "containerGet E (ContainerID st) = (labels, gerr)"
    and "portsOf (createPortMappingFromString E (label labels portsKey)) = ports"
    and "ports \<noteq> []"
  shows "trace (handleTaskStart E ev w)
         = trace w
           @ (case uerr of None \<Rightarrow> [] | Some e \<Rightarrow> [Errorf LogUnmarshalStart e])
           @ (case gerr of None \<Rightarrow> [] | Some e \<Rightarrow> [Errorf LogGetContainer e])
           @ (case errOf (createPortMappingFromString E (label labels portsKey)) of
                None \<Rightarrow> [] | Some e \<Rightarrow> [Errorf LogPortMapping e])
           @ snd (execIptablesRules E ports (ContainerID st) (label labels networkKey)
                    (Namespace ev) (Itoa (uint (Pid st))))
           @ (case fst (execIptablesRules E ports (ContainerID st) (label labels networkKey)
                    (Namespace ev) (Itoa (uint (Pid st)))) of
                None \<Rightarrow> [] | Some e \<Rightarrow> [Errorf LogIptables e])
           @ TrackerAdd (ContainerID st) ports
             # (case snd (portTracker_Add (portTracker w) (ContainerID st) ports) of
                  None \<Rightarrow> [] | Some e \<Rightarrow> [Errorf LogTrackerAdd e])"
    and "portTracker (handleTaskStart E ev w)
         = fst (portTracker_Add (portTracker w) (ContainerID st) ports)"
  using assms
  by (simp_all add: handleTaskStart_def Let_def trace_trackerAdd tracker_trackerAdd
      trace_runIptablesRules tracker_runIptablesRules)

lemma reconcileContainer_trace:
  assumes "length (case portTracker w (container_ID c) of None \<Rightarrow> [] | Some pm \<Rightarrow> pm) = 0"
    and "container_Task c = Inr t"
    and "task_Status t = Inr Running"
    and "container_Labels c = Inr labels"
    and "portsOf (createPortMappingFromString E (label labels portsKey)) = ports"
    and "ports \<noteq> []"
  shows "trace (reconcileContainer E c w)
         = trace w
           @ (case errOf (createPortMappingFromString E (label labels portsKey)) of
                None \<Rightarrow> [] | Some e \<Rightarrow> [Errorf LogPortMapping e])
           @ snd (execIptablesRules E ports (container_ID c) (label labels networkKey)
                    (label labels namespaceKey) (Itoa (uint (task_Pid t))))
           @ (case fst (execIptablesRules E ports (container_ID c) (label labels networkKey)
                    (label labels namespaceKey) (Itoa (uint (task_Pid t)))) of
                None \<Rightarrow> [] | Some e \<Rightarrow> [Errorf LogIptables e])
           @ TrackerAdd (container_ID c) ports
             # (case snd (portTracker_Add (portTracker w) (container_ID c) ports) of
                  None \<Rightarrow> [] | Some e \<Rightarrow> [Errorf LogTrackerAdd e])"
    and "portTracker (reconcileContainer E c w)
         = fst (portTracker_Add (portTracker w) (container_ID c) ports)"
  using assms
  by (simp_all add: reconcileContainer_def portTracker_Get_def Let_def trace_trackerAdd
      tracker_trackerAdd trace_runIptablesRules tracker_runIptablesRules)

lemma createLoopback_commands:
  "list_all is_command (snd (createLoopbackIPtablesRules E nets cid ns pid port dport))"
proof (cases "extractIPAddress E pid")
  case (Inl e)
  then show ?thesis by (simp add: createLoopbackIPtablesRules_def)
next
  case (Inr ip)
  then show ?thesis by (simp add: createLoopback_eq Let_def list_all_iff)
qed

lemma execBindings_commands:
  "list_all is_command tr \<Longrightarrow>
   list_all is_command (snd (execBindings E nets cid ns pid port bs (errs, tr)))"
proof (induction bs arbitrary: errs tr)
  case Nil
  then show ?case by simp
next
  case (Cons b bs)
  show ?case
  proof (cases "HostIP b = ''127.0.0.1''")
    case True
    obtain e tr' where r: "createLoopbackIPtablesRules E nets cid ns pid port (HostPort b) = (e, tr')"
      by (cases "createLoopbackIPtablesRules E nets cid ns pid port (HostPort b)")
    with createLoopback_commands [of E nets cid ns pid port "HostPort b"]
    have "list_all is_command (tr @ tr')"
      using Cons.prems by simp
    then show ?thesis
      using True r by (cases e) (simp_all add: Cons.IH)
  next
    case False
    then show ?thesis using Cons by simp
  qed
qed

lemma execPorts_commands:
  "list_all is_command (snd acc) \<Longrightarrow>
   list_all is_command (snd (execPorts E nets cid ns pid pm acc))"
proof (induction pm arbitrary: acc)
  case Nil
  then show ?case by simp
next
  case (Cons kb pm)
  obtain k bs where kb: "kb = (k, bs)" by (cases kb)
  obtain errs tr where acc: "acc = (errs, tr)" by (cases acc)
  show ?case
    unfolding kb execPorts.simps
    using Cons.prems by (intro Cons.IH) (simp add: acc execBindings_commands)
qed

lemma execIptablesRules_only_commands:
  "list_all is_command (snd (execIptablesRules E ports cid networks ns pid))"
proof (cases "unmarshalNetworks E networks")
  case (Inl e)
  then show ?thesis by (simp add: execIptablesRules_def)
next
  case (Inr nets)
  obtain errs tr where r: "execPorts E nets cid ns pid ports ([], []) = (errs, tr)"
    by (cases "execPorts E nets cid ns pid ports ([], [])")
  with execPorts_commands [of "([], [])" E nets cid ns pid ports]
  show ?thesis using Inr by (simp add: execIptablesRules_def)
qed

lemma filter_mutation_commands:
  "filter is_tracker_mutation (snd (execIptablesRules E ports cid networks ns pid)) = []"
proof -
  have "is_command e \<Longrightarrow> \<not> is_tracker_mutation e" for e
    by (cases e) simp_all
  then show ?thesis
    using execIptablesRules_only_commands [of E ports cid networks ns pid]
    by (auto simp: filter_empty_conv list_all_iff)
qed

text \<open>
  C9. A task-exit event for the container \<open>cid\<close> runs no command at all. If the tracker
  holds a record for \<open>cid\<close>, the handler calls \<open>Remove\<close> once and, with the tracker as the
  spec describes it, exactly that record is gone while every other record stays; if \<open>cid\<close>
  is untracked, the tracker is not called and stays as it was.
\<close>

theorem handleTaskExit_effects:
  assumes "unmarshalTaskExit E (Event ev) = (cid, err)"
  shows "filter is_command (new_effects w (handleTaskExit E ev w)) = []
     \<and> (portTracker w cid \<noteq> None \<longrightarrow>
          portTracker (handleTaskExit E ev w) = (portTracker w)(cid := None)
          \<and> filter is_tracker_mutation (new_effects w (handleTaskExit E ev w))
              = [TrackerRemove cid])
     \<and> (portTracker w cid = None \<longrightarrow>
          portTracker (handleTaskExit E ev w) = portTracker w
          \<and> filter is_tracker_mutation (new_effects w (handleTaskExit E ev w)) = [])"
proof (cases "portTracker w cid")
  case None
  with assms have "handleTaskExit E ev w = logErr LogUnmarshalExit err w"
    by (simp add: handleTaskExit_def portTracker_Get_def)
  then show ?thesis
    using None by (simp add: new_effects_def)
next
  case (Some pm)
  with assms have "handleTaskExit E ev w = trackerRemove cid (logErr LogUnmarshalExit err w)"
    by (simp add: handleTaskExit_def portTracker_Get_def)
  then show ?thesis
    using Some by (simp add: new_effects_def trace_trackerRemove tracker_trackerRemove)
qed

theorem handleTaskExit_effects_witness:
  "portTracker (handleTaskExit demoEnv (demoEvent ''/tasks/exit'' ''c1'')
      \<lparr>portTracker = [''c1'' \<mapsto> [(''80/tcp'', [\<lparr>HostIP = ''127.0.0.1'', HostPort = ''8080''\<rparr>])],
                      ''c2'' \<mapsto> [(''80/tcp'', [\<lparr>HostIP = ''127.0.0.1'', HostPort = ''8080''\<rparr>])]],
       trace = []\<rparr>)
   = [''c2'' \<mapsto> [(''80/tcp'', [\<lparr>HostIP = ''127.0.0.1'', HostPort = ''8080''\<rparr>])]]
   \<and> portTracker (handleTaskExit demoEnv (demoEvent ''/tasks/exit'' ''c1'') emptyWorld)
     = Map.empty"
proof -
  have u: "unmarshalTaskExit demoEnv (Event (demoEvent ''/tasks/exit'' ''c1'')) = (''c1'', None)"
    by (simp add: demo_fields demoEvent_def)
  show ?thesis
    using handleTaskExit_effects [OF u, of emptyWorld]
      handleTaskExit_effects [OF u, of "\<lparr>portTracker = [''c1'' \<mapsto> [(''80/tcp'', [\<lparr>HostIP = ''127.0.0.1'', HostPort = ''8080''\<rparr>])],
                      ''c2'' \<mapsto> [(''80/tcp'', [\<lparr>HostIP = ''127.0.0.1'', HostPort = ''8080''\<rparr>])]],
       trace = []\<rparr>"]
    by (simp add: emptyWorld_def fun_upd_twist)
qed

lemma demo_exec_c4:
  "execIptablesRules demoEnv [(''80/tcp'', [\<lparr>HostIP = ''127.0.0.1'', HostPort = ''8080''\<rparr>])]
     ''c4'' ''[bridge,broken,backend]'' ''default'' ''4242''
   = (Some (ErrExecIptablesRule [Joined [IptablesRuleFailed
         (networkCmd demoEnv ''default-c4'' ''10.4.0.22'' ''80'' ''8080'' ''broken'')
         (ExitError 1) ''No chain/target/match by that name'']]),
      [Command (nsenterArgs ''4242''),
       Command (networkCmd demoEnv ''default-c4'' ''10.4.0.22'' ''80'' ''8080'' ''bridge''),
       Command (networkCmd demoEnv ''default-c4'' ''10.4.0.22'' ''80'' ''8080'' ''broken''),
       Command (networkCmd demoEnv ''default-c4'' ''10.4.0.22'' ''80'' ''8080'' ''backend'')])"
proof -
  have f: "iptables demoEnv (networkCmd demoEnv ''default-c4'' ''10.4.0.22'' ''80'' ''8080'' n)
           = (if n = ''broken'' then (Some (ExitError 1), ''No chain/target/match by that name'')
              else (None, []))" for n
    by (simp add: demo_fields networkCmd_def)
  show ?thesis
    by (simp add: execIptablesRules_def demo_fields(6) demoNetworks_def
        createLoopback_eq [OF demo_extract] Let_def cmdFailure_def f Port_Port_def)
qed

lemma demo_pid: "Itoa 4242 = ''4242''"
  by (simp add: Itoa_def digits.simps digit_char_def)

text \<open>
  C10. On a task-start event, and in the startup reconciler, with a non-empty extracted
  mapping set: when the firewall synchronizer returns an error, the error is logged and
  the handler still calls \<open>Add\<close> on the tracker, once, with the extracted mappings; for a
  container the tracker did not hold, the tracker then records them.
\<close>

theorem tracker_add_despite_rule_failure:
  "(unmarshalTaskStart E (Event ev) = (st, uerr)
    \<and> containerGet E (ContainerID st) = (labels, gerr)
    \<and> portsOf (createPortMappingFromString E (label labels portsKey)) = ports
    \<and> ports \<noteq> []
    \<and> fst (execIptablesRules E ports (ContainerID st) (label labels networkKey)
              (Namespace ev) (Itoa (uint (Pid st)))) = Some xerr
    \<longrightarrow> filter is_tracker_mutation (new_effects w (handleTaskStart E ev w))
          = [TrackerAdd (ContainerID st) ports]
        \<and> Errorf LogIptables xerr \<in> set (new_effects w (handleTaskStart E ev w))
        \<and> (portTracker w (ContainerID st) = None
             \<longrightarrow> portTracker (handleTaskStart E ev w) = (portTracker w)(ContainerID st \<mapsto> ports)))
   \<and> (length (case portTracker w (container_ID c) of None \<Rightarrow> [] | Some pm \<Rightarrow> pm) = 0
      \<and> container_Task c = Inr t
      \<and> task_Status t = Inr Running
      \<and> container_Labels c = Inr clabels
      \<and> portsOf (createPortMappingFromString E (label clabels portsKey)) = cports
      \<and> cports \<noteq> []
      \<and> fst (execIptablesRules E cports (container_ID c) (label clabels networkKey)
                (label clabels namespaceKey) (Itoa (uint (task_Pid t)))) = Some cerr
      \<longrightarrow> filter is_tracker_mutation (new_effects w (reconcileContainer E c w))
            = [TrackerAdd (container_ID c) cports]
          \<and> Errorf LogIptables cerr \<in> set (new_effects w (reconcileContainer E c w))
          \<and> (portTracker w (container_ID c) = None
               \<longrightarrow> portTracker (reconcileContainer E c w)
                     = (portTracker w)(container_ID c \<mapsto> cports)))"
proof (intro conjI impI; (elim conjE)?)
  assume a: "unmarshalTaskStart E (Event ev) = (st, uerr)"
    "containerGet E (ContainerID st) = (labels, gerr)"
    "portsOf (createPortMappingFromString E (label labels portsKey)) = ports"
    "ports \<noteq> []"
    and x: "fst (execIptablesRules E ports (ContainerID st) (label labels networkKey)
              (Namespace ev) (Itoa (uint (Pid st)))) = Some xerr"
  note tr = new_effectsI [OF handleTaskStart_trace(1) [OF a, of w]]
  show "filter is_tracker_mutation (new_effects w (handleTaskStart E ev w))
          = [TrackerAdd (ContainerID st) ports]"
    unfolding tr by (simp add: filter_mutation_commands)
  show "Errorf LogIptables xerr \<in> set (new_effects w (handleTaskStart E ev w))"
    unfolding tr by (simp add: x)
  show "portTracker (handleTaskStart E ev w) = (portTracker w)(ContainerID st \<mapsto> ports)"
    if "portTracker w (ContainerID st) = None"
    using that a(4) by (simp add: handleTaskStart_trace(2) [OF a] portTracker_Add_fresh)
next
  assume a: "length (case portTracker w (container_ID c) of None \<Rightarrow> [] | Some pm \<Rightarrow> pm) = 0"
    "container_Task c = Inr t" "task_Status t = Inr Running" "container_Labels c = Inr clabels"
    "portsOf (createPortMappingFromString E (label clabels portsKey)) = cports"
    "cports \<noteq> []"
    and x: "fst (execIptablesRules E cports (container_ID c) (label clabels networkKey)
                (label clabels namespaceKey) (Itoa (uint (task_Pid t)))) = Some cerr"
  note tr = new_effectsI [OF reconcileContainer_trace(1) [OF a]]
  show "filter is_tracker_mutation (new_effects w (reconcileContainer E c w))
            = [TrackerAdd (container_ID c) cports]"
    unfolding tr by (simp add: filter_mutation_commands)
  show "Errorf LogIptables cerr \<in> set (new_effects w (reconcileContainer E c w))"
    unfolding tr by (simp add: x)
  show "portTracker (reconcileContainer E c w) = (portTracker w)(container_ID c \<mapsto> cports)"
    if "portTracker w (container_ID c) = None"
    using that a(6) by (simp add: reconcileContainer_trace(2) [OF a] portTracker_Add_fresh)
qed

theorem tracker_add_despite_rule_failure_witness:
  "portTracker (handleTaskStart demoEnv (demoEvent ''/tasks/start'' ''c4'') emptyWorld)
     = [''c4'' \<mapsto> [(''80/tcp'', [\<lparr>HostIP = ''127.0.0.1'', HostPort = ''8080''\<rparr>])]]
   \<and> fst (execIptablesRules demoEnv
            [(''80/tcp'', [\<lparr>HostIP = ''127.0.0.1'', HostPort = ''8080''\<rparr>])]
            ''c4'' ''[bridge,broken,backend]'' ''default'' ''4242'') \<noteq> None
   \<and> portTracker (reconcileContainer demoEnv (demoContainer ''c4'') emptyWorld)
     = [''c4'' \<mapsto> [(''80/tcp'', [\<lparr>HostIP = ''127.0.0.1'', HostPort = ''8080''\<rparr>])]]"
proof -
  let ?pm = "[(''80/tcp'', [\<lparr>HostIP = ''127.0.0.1'', HostPort = ''8080''\<rparr>])]"
  let ?L = "[''nerdctl/ports'' \<mapsto> P1, ''nerdctl/networks'' \<mapsto> ''[bridge,broken,backend]'',
              ''nerdctl/namespace'' \<mapsto> ''default'']"
  let ?X = "ErrExecIptablesRule [Joined [IptablesRuleFailed
         (networkCmd demoEnv ''default-c4'' ''10.4.0.22'' ''80'' ''8080'' ''broken'')
         (ExitError 1) ''No chain/target/match by that name'']]"
  have l: "label ?L portsKey = P1" "label ?L networkKey = ''[bridge,broken,backend]''"
    "label ?L namespaceKey = ''default''"
    by (simp_all add: label_def portsKey_def networkKey_def namespaceKey_def)
  note pid = demo_pid
  have h1: "unmarshalTaskStart demoEnv (Event (demoEvent ''/tasks/start'' ''c4''))
            = (\<lparr>ContainerID = ''c4'', Pid = 4242\<rparr>, None)"
    by (simp add: demo_fields demoEvent_def)
  have h2: "containerGet demoEnv ''c4'' = (?L, None)"
    by (simp add: demo_fields demoLabels_def)
  have h3: "portsOf (createPortMappingFromString demoEnv (label ?L portsKey)) = ?pm"
    by (simp add: l demo_P1 portsOf_def)
  have h4: "fst (execIptablesRules demoEnv ?pm ''c4'' (label ?L networkKey) ''default''
               (Itoa (uint (4242 :: 32 word)))) = Some ?X"
    by (simp add: l pid demo_exec_c4)
  have h5: "fst (execIptablesRules demoEnv ?pm ''c4'' (label ?L networkKey) (label ?L namespaceKey)
               (Itoa (uint (4242 :: 32 word)))) = Some ?X"
    by (simp add: l pid demo_exec_c4)
  have c: "container_ID (demoContainer ''c4'') = ''c4''"
    "container_Task (demoContainer ''c4'') = Inr \<lparr>task_Pid = 4242, task_Status = Inr Running\<rparr>"
    "container_Labels (demoContainer ''c4'') = Inr ?L"
    by (simp_all add: demoContainer_def demoLabels_def)
  from tracker_add_despite_rule_failure [where E = demoEnv
      and ev = "demoEvent ''/tasks/start'' ''c4''"
      and st = "\<lparr>ContainerID = ''c4'', Pid = 4242\<rparr>" and uerr = None and labels = ?L
      and gerr = None and ports = ?pm and xerr = ?X and w = emptyWorld
      and c = "demoContainer ''c4''"
      and t = "\<lparr>task_Pid = 4242, task_Status = Inr Running\<rparr>"
      and clabels = ?L and cports = ?pm and cerr = ?X]
  show ?thesis
    using h1 h2 h3 h4 h5 c
    by (simp add: emptyWorld_def demoEvent_def demo_exec_c4)
qed

lemma handleTaskStart_no_ports:
  assumes "unmarshalTaskStart E (Event ev) = (st, uerr)"
    and "containerGet E (ContainerID st) = (labels, gerr)"
    and "portsOf (createPortMappingFromString E (label labels portsKey)) = []"
  shows "handleTaskStart E ev w
         = logErr LogPortMapping (errOf (createPortMappingFromString E (label labels portsKey)))
             (logErr LogGetContainer gerr (logErr LogUnmarshalStart uerr w))"
  using assms by (simp add: handleTaskStart_def Let_def)

text \<open>
  C6. The extractor returns the empty table and no error for the empty label, which is
  also what an absent label reads as. For a non-empty label the JSON decoder rejects, it
  returns the decoder's error. A task-start event whose container carries such a label
  only adds log lines, the last of them this error: the tracker is not touched, no
  command is run, and the loop goes on with the next item.
\<close>

theorem createPortMappingFromString_errors:
  "createPortMappingFromString E [] = Inr []
   \<and> (labels portsKey = None \<longrightarrow> createPortMappingFromString E (label labels portsKey) = Inr [])
   \<and> (s \<noteq> [] \<and> unmarshalPorts E s = Inl err \<longrightarrow> createPortMappingFromString E s = Inl err)
   \<and> (Topic ev = ''/tasks/start''
      \<and> unmarshalTaskStart E (Event ev) = (st, uerr)
      \<and> containerGet E (ContainerID st) = (clabels, gerr)
      \<and> label clabels portsKey \<noteq> []
      \<and> unmarshalPorts E (label clabels portsKey) = Inl derr
      \<longrightarrow> portTracker (handleEnvelope E ev w) = portTracker w
          \<and> new_effects w (handleEnvelope E ev w)
            = (case uerr of None \<Rightarrow> [] | Some e \<Rightarrow> [Errorf LogUnmarshalStart e])
              @ (case gerr of None \<Rightarrow> [] | Some e \<Rightarrow> [Errorf LogGetContainer e])
              @ [Errorf LogPortMapping derr]
          \<and> MonitorPorts E (Message ev # rest) w
            = MonitorPorts E rest
                (emit ((case uerr of None \<Rightarrow> [] | Some e \<Rightarrow> [Errorf LogUnmarshalStart e])
                       @ (case gerr of None \<Rightarrow> [] | Some e \<Rightarrow> [Errorf LogGetContainer e])
                       @ [Errorf LogPortMapping derr]) w))"
proof (intro conjI impI; (elim conjE)?)
  show "createPortMappingFromString E [] = Inr []"
    by (simp add: createPortMappingFromString_def)
  show "createPortMappingFromString E (label labels portsKey) = Inr []"
    if "labels portsKey = None"
    using that by (simp add: createPortMappingFromString_def label_def)
  show "createPortMappingFromString E s = Inl err" if "s \<noteq> []" "unmarshalPorts E s = Inl err"
    using that by (simp add: createPortMappingFromString_def)
next
  assume a: "Topic ev = ''/tasks/start''" "unmarshalTaskStart E (Event ev) = (st, uerr)"
    "containerGet E (ContainerID st) = (clabels, gerr)" "label clabels portsKey \<noteq> []"
    "unmarshalPorts E (label clabels portsKey) = Inl derr"
  have c: "createPortMappingFromString E (label clabels portsKey) = Inl derr"
    using a(4,5) by (simp add: createPortMappingFromString_def)
  have h: "handleEnvelope E ev w
           = logErr LogPortMapping (Some derr)
               (logErr LogGetContainer gerr (logErr LogUnmarshalStart uerr w))"
    using a(1) handleTaskStart_no_ports [OF a(2,3), of w]
    by (simp add: handleEnvelope_def c portsOf_def errOf_def)
  show "portTracker (handleEnvelope E ev w) = portTracker w"
    by (simp add: h)
  show "new_effects w (handleEnvelope E ev w)
            = (case uerr of None \<Rightarrow> [] | Some e \<Rightarrow> [Errorf LogUnmarshalStart e])
              @ (case gerr of None \<Rightarrow> [] | Some e \<Rightarrow> [Errorf LogGetContainer e])
              @ [Errorf LogPortMapping derr]"
    by (simp add: h new_effects_def)
  show "MonitorPorts E (Message ev # rest) w
            = MonitorPorts E rest
                (emit ((case uerr of None \<Rightarrow> [] | Some e \<Rightarrow> [Errorf LogUnmarshalStart e])
                       @ (case gerr of None \<Rightarrow> [] | Some e \<Rightarrow> [Errorf LogGetContainer e])
                       @ [Errorf LogPortMapping derr]) w)"
    by (simp add: h logErr_def emit_def split: option.splits)
qed

theorem createPortMappingFromString_errors_witness:
  "createPortMappingFromString demoEnv ''{HostPort'' = Inl (JSONError ''invalid character'')
   \<and> MonitorPorts demoEnv
       [Message (demoEvent ''/tasks/start'' ''c3''), Message (demoEvent ''/tasks/start'' ''c1'')]
       emptyWorld
     = MonitorPorts demoEnv [Message (demoEvent ''/tasks/start'' ''c1'')]
         (emit [Errorf LogPortMapping (JSONError ''invalid character'')] emptyWorld)"
proof -
  let ?L = "[''nerdctl/ports'' \<mapsto> ''{HostPort'', ''nerdctl/networks'' \<mapsto> ''[bridge]'',
              ''nerdctl/namespace'' \<mapsto> ''default'']"
  have l: "label ?L portsKey = ''{HostPort''"
    by (simp add: label_def portsKey_def)
  have h1: "unmarshalTaskStart demoEnv (Event (demoEvent ''/tasks/start'' ''c3''))
            = (\<lparr>ContainerID = ''c3'', Pid = 4242\<rparr>, None)"
    by (simp add: demo_fields demoEvent_def)
  have h2: "containerGet demoEnv ''c3'' = (?L, None)"
    by (simp add: demo_fields demoLabels_def)
  have h3: "unmarshalPorts demoEnv ''{HostPort'' = Inl (JSONError ''invalid character'')"
    by (simp add: demo_defs)
  from createPortMappingFromString_errors [where E = demoEnv and s = "''{HostPort''"
      and err = "JSONError ''invalid character''" and labels = Map.empty
      and ev = "demoEvent ''/tasks/start'' ''c3''"
      and st = "\<lparr>ContainerID = ''c3'', Pid = 4242\<rparr>" and uerr = None and clabels = ?L
      and gerr = None and derr = "JSONError ''invalid character''" and w = emptyWorld
      and rest = "[Message (demoEvent ''/tasks/start'' ''c1'')]"]
  show ?thesis
    using h1 h2 h3 l by (simp add: demoEvent_def)
qed

lemma logErr_None [simp]: "logErr site None w = w"
  by (simp add: logErr_def)

lemma handleContainerUpdate_changed:
  assumes "unmarshalContainerUpdate E (Event ev) = (cid, uerr)"
    and "containerGet E cid = (labels, gerr)"
    and "createPortMappingFromString E (label labels portsKey) = Inr ports"
    and "ports \<noteq> []"
    and "portTracker w cid = Some existing"
    and "\<not> DeepEqual ports existing"
  shows "handleContainerUpdate E ev w
         = trackerAdd cid ports (trackerRemove cid
             (logErr LogGetContainer gerr (logErr LogUnmarshalUpdate uerr w)))"
  using assms
  by (simp add: handleContainerUpdate_def Let_def portsOf_def errOf_def portTracker_Get_def)

lemma handleContainerUpdate_unchanged:
  assumes "unmarshalContainerUpdate E (Event ev) = (cid, uerr)"
    and "containerGet E cid = (labels, gerr)"
    and "createPortMappingFromString E (label labels portsKey) = Inr ports"
    and "portTracker w cid = Some existing"
    and "DeepEqual ports existing"
  shows "handleContainerUpdate E ev w
         = logErr LogGetContainer gerr (logErr LogUnmarshalUpdate uerr w)"
  using assms
  by (simp add: handleContainerUpdate_def Let_def portsOf_def errOf_def portTracker_Get_def)

lemma demo_update_c1:
  "unmarshalContainerUpdate demoEnv (Event (demoEvent ''/containers/update'' cid)) = (cid, None)"
  by (simp add: demo_fields demoEvent_def)

lemma demo_get:
  "containerGet demoEnv ''c1''
   = ([''nerdctl/ports'' \<mapsto> P1, ''nerdctl/networks'' \<mapsto> ''[bridge]'',
       ''nerdctl/namespace'' \<mapsto> ''default''], None)"
  "containerGet demoEnv ''c7''
   = ([''nerdctl/ports'' \<mapsto> P7, ''nerdctl/networks'' \<mapsto> ''[bridge]'',
       ''nerdctl/namespace'' \<mapsto> ''default''], None)"
  "containerGet demoEnv ''c5''
   = ([''nerdctl/ports'' \<mapsto> P5, ''nerdctl/networks'' \<mapsto> ''[bridge]'',
       ''nerdctl/namespace'' \<mapsto> ''default''], None)"
  by (simp_all add: demo_fields demoLabels_def)

lemma demo_label:
  "label [''nerdctl/ports'' \<mapsto> p, ''nerdctl/networks'' \<mapsto> n, ''nerdctl/namespace'' \<mapsto> s] portsKey = p"
  "label [''nerdctl/ports'' \<mapsto> p, ''nerdctl/networks'' \<mapsto> n, ''nerdctl/namespace'' \<mapsto> s] networkKey = n"
  "label [''nerdctl/ports'' \<mapsto> p, ''nerdctl/networks'' \<mapsto> n, ''nerdctl/namespace'' \<mapsto> s] namespaceKey = s"
  by (simp_all add: label_def portsKey_def networkKey_def namespaceKey_def)

text \<open>
  C1 (as amended). A container-update event whose extracted, non-empty mapping set is not
  deeply equal to the set tracked for that container makes the handler call \<open>Remove\<close> once
  and then \<open>Add\<close> once with the new set, after which the tracker holds the new set for
  the container. The handler runs no command: the firewall synchronizer is not run on a
  container-update event.
\<close>

theorem handleContainerUpdate_remove_then_add:
  assumes "unmarshalContainerUpdate E (Event ev) = (cid, uerr)"
    and "containerGet E cid = (labels, gerr)"
    and "createPortMappingFromString E (label labels portsKey) = Inr ports"
    and "ports \<noteq> []"
    and "portTracker w cid = Some existing"
    and "\<not> DeepEqual ports existing"
  shows "filter (\<lambda>e. is_tracker_mutation e \<or> is_command e)
           (new_effects w (handleContainerUpdate E ev w))
         = [TrackerRemove cid, TrackerAdd cid ports]
     \<and> portTracker (handleContainerUpdate E ev w) = (portTracker w)(cid \<mapsto> ports)"
proof -
  let ?w1 = "logErr LogGetContainer gerr (logErr LogUnmarshalUpdate uerr w)"
  have add: "portTracker_Add ((portTracker w)(cid := None)) cid ports
             = ((portTracker w)(cid \<mapsto> ports), None)"
    using assms(4) by (simp add: portTracker_Add_def)
  have "trace (handleContainerUpdate E ev w)
        = trace w
          @ (case uerr of None \<Rightarrow> [] | Some e \<Rightarrow> [Errorf LogUnmarshalUpdate e])
          @ (case gerr of None \<Rightarrow> [] | Some e \<Rightarrow> [Errorf LogGetContainer e])
          @ [TrackerRemove cid, TrackerAdd cid ports]"
    by (simp add: handleContainerUpdate_changed [OF assms] trace_trackerAdd trace_trackerRemove
        tracker_trackerRemove add)
  from new_effectsI [OF this]
  have "filter (\<lambda>e. is_tracker_mutation e \<or> is_command e)
           (new_effects w (handleContainerUpdate E ev w))
         = [TrackerRemove cid, TrackerAdd cid ports]"
    by simp
  moreover have "portTracker (handleContainerUpdate E ev w) = (portTracker w)(cid \<mapsto> ports)"
    by (simp add: handleContainerUpdate_changed [OF assms] tracker_trackerAdd
        tracker_trackerRemove add)
  ultimately show ?thesis by simp
qed

theorem handleContainerUpdate_remove_then_add_witness:
  "filter (\<lambda>e. is_tracker_mutation e \<or> is_command e)
     (new_effects
        \<lparr>portTracker = [''c1'' \<mapsto> [(''80/tcp'', [\<lparr>HostIP = ''0.0.0.0'', HostPort = ''9090''\<rparr>])]],
         trace = []\<rparr>
        (handleContainerUpdate demoEnv (demoEvent ''/containers/update'' ''c1'')
           \<lparr>portTracker = [''c1'' \<mapsto> [(''80/tcp'', [\<lparr>HostIP = ''0.0.0.0'', HostPort = ''9090''\<rparr>])]],
            trace = []\<rparr>))
   = [TrackerRemove ''c1'',
      TrackerAdd ''c1'' [(''80/tcp'', [\<lparr>HostIP = ''127.0.0.1'', HostPort = ''8080''\<rparr>])]]"
proof -
  have d: "\<not> DeepEqual [(''80/tcp'', [\<lparr>HostIP = ''127.0.0.1'', HostPort = ''8080''\<rparr>])]
                        [(''80/tcp'', [\<lparr>HostIP = ''0.0.0.0'', HostPort = ''9090''\<rparr>])]"
    by (simp add: DeepEqual_def)
  have p: "createPortMappingFromString demoEnv
             (label [''nerdctl/ports'' \<mapsto> P1, ''nerdctl/networks'' \<mapsto> ''[bridge]'',
                     ''nerdctl/namespace'' \<mapsto> ''default''] portsKey)
           = Inr [(''80/tcp'', [\<lparr>HostIP = ''127.0.0.1'', HostPort = ''8080''\<rparr>])]"
    by (simp add: demo_label demo_P1)
  from handleContainerUpdate_remove_then_add [OF demo_update_c1 demo_get(1) p _ _ d,
      of "\<lparr>portTracker = [''c1'' \<mapsto> [(''80/tcp'', [\<lparr>HostIP = ''0.0.0.0'', HostPort = ''9090''\<rparr>])]],
            trace = []\<rparr>"]
  show ?thesis by simp
qed

theorem handleContainerUpdate_no_firewall_counterexample:
  "new_effects
     \<lparr>portTracker = [''c1'' \<mapsto> [(''80/tcp'', [\<lparr>HostIP = ''0.0.0.0'', HostPort = ''9090''\<rparr>])]],
      trace = []\<rparr>
     (handleContainerUpdate demoEnv (demoEvent ''/containers/update'' ''c1'')
        \<lparr>portTracker = [''c1'' \<mapsto> [(''80/tcp'', [\<lparr>HostIP = ''0.0.0.0'', HostPort = ''9090''\<rparr>])]],
         trace = []\<rparr>)
   = [TrackerRemove ''c1'',
      TrackerAdd ''c1'' [(''80/tcp'', [\<lparr>HostIP = ''127.0.0.1'', HostPort = ''8080''\<rparr>])]]
   \<and> filter is_iptables
       (snd (execIptablesRules demoEnv
               [(''80/tcp'', [\<lparr>HostIP = ''127.0.0.1'', HostPort = ''8080''\<rparr>])]
               ''c1'' ''[bridge]'' ''default'' ''4242''))
     = [Command [''iptables'', ''--table'', ''nat'', ''--append'', ''CNI-DN-bridge.default-c1'',
                 ''--protocol'', ''tcp'', ''--destination'', ''0.0.0.0/0'', ''--jump'', ''DNAT'',
                 ''--dport'', ''8080'', ''--to-destination'', ''10.4.0.22:80'']]"
proof -
  have d: "\<not> DeepEqual [(''80/tcp'', [\<lparr>HostIP = ''127.0.0.1'', HostPort = ''8080''\<rparr>])]
                        [(''80/tcp'', [\<lparr>HostIP = ''0.0.0.0'', HostPort = ''9090''\<rparr>])]"
    by (simp add: DeepEqual_def)
  have p: "createPortMappingFromString demoEnv
             (label [''nerdctl/ports'' \<mapsto> P1, ''nerdctl/networks'' \<mapsto> ''[bridge]'',
                     ''nerdctl/namespace'' \<mapsto> ''default''] portsKey)
           = Inr [(''80/tcp'', [\<lparr>HostIP = ''127.0.0.1'', HostPort = ''8080''\<rparr>])]"
    by (simp add: demo_label demo_P1)
  have "handleContainerUpdate demoEnv (demoEvent ''/containers/update'' ''c1'')
          \<lparr>portTracker = [''c1'' \<mapsto> [(''80/tcp'', [\<lparr>HostIP = ''0.0.0.0'', HostPort = ''9090''\<rparr>])]],
           trace = []\<rparr>
        = trackerAdd ''c1'' [(''80/tcp'', [\<lparr>HostIP = ''127.0.0.1'', HostPort = ''8080''\<rparr>])]
            (trackerRemove ''c1''
              \<lparr>portTracker = [''c1'' \<mapsto> [(''80/tcp'', [\<lparr>HostIP = ''0.0.0.0'', HostPort = ''9090''\<rparr>])]],
               trace = []\<rparr>)"
    by (subst handleContainerUpdate_changed [OF demo_update_c1 demo_get(1) p _ _ d])
       simp_all
  then show ?thesis
    by (simp add: new_effects_def trace_trackerAdd trace_trackerRemove tracker_trackerRemove
        portTracker_Add_def execIptablesRules_snd [OF demo_bridge demo_extract]
        filter_bindingEffects networkCmd_def demo_fields Port_Port_def)
qed

lemma DeepEqual_map_of:
  assumes "distinct (map fst a)" "distinct (map fst b)"
  shows "DeepEqual a b \<longleftrightarrow> map_of a = map_of b"
proof
  assume d: "DeepEqual a b"
  then have len: "length a = length b"
    and sub: "\<And>k v. (k, v) \<in> set a \<Longrightarrow> map_of b k = Some v"
    by (auto simp: DeepEqual_def list_all_iff)
  have "fst ` set a \<subseteq> fst ` set b"
    using sub by (force simp: dom_map_of_conv_image_fst [symmetric])
  moreover have "card (fst ` set a) = card (fst ` set b)"
    using assms len distinct_card [of "map fst a"] distinct_card [of "map fst b"]
    by simp
  ultimately have dom: "fst ` set a = fst ` set b"
    by (intro card_subset_eq) simp_all
  show "map_of a = map_of b"
  proof
    fix k
    show "map_of a k = map_of b k"
    proof (cases "map_of a k")
      case None
      then have "k \<notin> fst ` set a" by (simp add: map_of_eq_None_iff)
      with dom have "map_of b k = None" by (simp add: map_of_eq_None_iff)
      with None show ?thesis by simp
    next
      case (Some v)
      then have "(k, v) \<in> set a" by (rule map_of_SomeD)
      with sub Some show ?thesis by simp
    qed
  qed
next
  assume e: "map_of a = map_of b"
  then have "fst ` set a = fst ` set b"
    by (metis dom_map_of_conv_image_fst)
  then have "length a = length b"
    using assms distinct_card [of "map fst a"] distinct_card [of "map fst b"]
    by simp
  moreover have "map_of b k = Some v" if "(k, v) \<in> set a" for k v
    using that assms(1) e by (metis map_of_is_SomeI)
  ultimately show "DeepEqual a b"
    by (auto simp: DeepEqual_def list_all_iff)
qed

text \<open>
  C4 (as amended). A container-update event whose extracted mapping set is deeply equal
  to the set tracked for that container changes nothing: no call that mutates the
  tracker, no command. Deep equality does not depend on the order of the ports (two maps
  with distinct keys are deeply equal exactly when they map the same ports to the same
  binding lists), but it compares the binding list of each port element by element, in
  order.
\<close>

theorem handleContainerUpdate_unchanged_noop:
  assumes "unmarshalContainerUpdate E (Event ev) = (cid, uerr)"
    and "containerGet E cid = (labels, gerr)"
    and "createPortMappingFromString E (label labels portsKey) = Inr ports"
    and "portTracker w cid = Some existing"
    and "DeepEqual ports existing"
  shows "portTracker (handleContainerUpdate E ev w) = portTracker w
     \<and> filter (\<lambda>e. is_tracker_mutation e \<or> is_command e)
         (new_effects w (handleContainerUpdate E ev w)) = []
     \<and> (distinct (map fst a) \<and> distinct (map fst b)
          \<longrightarrow> DeepEqual a b = (map_of a = map_of b))"
  using DeepEqual_map_of [of a b]
  by (simp add: handleContainerUpdate_unchanged [OF assms] new_effects_def)

theorem handleContainerUpdate_unchanged_noop_witness:
  "handleContainerUpdate demoEnv (demoEvent ''/containers/update'' ''c5'')
     \<lparr>portTracker = [''c5'' \<mapsto> [(''80/tcp'', [\<lparr>HostIP = ''127.0.0.1'', HostPort = ''8080''\<rparr>,
                                              \<lparr>HostIP = ''0.0.0.0'', HostPort = ''8081''\<rparr>])]],
      trace = []\<rparr>
   = \<lparr>portTracker = [''c5'' \<mapsto> [(''80/tcp'', [\<lparr>HostIP = ''127.0.0.1'', HostPort = ''8080''\<rparr>,
                                              \<lparr>HostIP = ''0.0.0.0'', HostPort = ''8081''\<rparr>])]],
      trace = []\<rparr>
   \<and> DeepEqual [(''80/tcp'', [\<lparr>HostIP = ''127.0.0.1'', HostPort = ''8080''\<rparr>]),
                (''53/udp'', [\<lparr>HostIP = ''0.0.0.0'', HostPort = ''5353''\<rparr>])]
               [(''53/udp'', [\<lparr>HostIP = ''0.0.0.0'', HostPort = ''5353''\<rparr>]),
                (''80/tcp'', [\<lparr>HostIP = ''127.0.0.1'', HostPort = ''8080''\<rparr>])]"
proof -
  let ?pm = "[(''80/tcp'', [\<lparr>HostIP = ''127.0.0.1'', HostPort = ''8080''\<rparr>,
                           \<lparr>HostIP = ''0.0.0.0'', HostPort = ''8081''\<rparr>])]"
  let ?w = "\<lparr>portTracker = [''c5'' \<mapsto> ?pm], trace = []\<rparr>"
  have d: "DeepEqual ?pm ?pm"
    by (simp add: DeepEqual_def)
  have p: "createPortMappingFromString demoEnv
             (label [''nerdctl/ports'' \<mapsto> P5, ''nerdctl/networks'' \<mapsto> ''[bridge]'',
                     ''nerdctl/namespace'' \<mapsto> ''default''] portsKey)
           = Inr ?pm"
    by (simp add: demo_label demo_P5)
  have t: "portTracker ?w ''c5'' = Some ?pm"
    by simp
  have m: "map_of [(''80/tcp'', [\<lparr>HostIP = ''127.0.0.1'', HostPort = ''8080''\<rparr>]),
                   (''53/udp'', [\<lparr>HostIP = ''0.0.0.0'', HostPort = ''5353''\<rparr>])]
           = map_of [(''53/udp'', [\<lparr>HostIP = ''0.0.0.0'', HostPort = ''5353''\<rparr>]),
                (''80/tcp'', [\<lparr>HostIP = ''127.0.0.1'', HostPort = ''8080''\<rparr>])]"
    by (auto simp: fun_eq_iff)
  have "trace (handleContainerUpdate demoEnv (demoEvent ''/containers/update'' ''c5'') ?w) = []"
    by (simp add: handleContainerUpdate_unchanged [OF demo_update_c1 demo_get(3) p t d])
  with handleContainerUpdate_unchanged_noop [OF demo_update_c1 demo_get(3) p t d,
      of "[(''80/tcp'', [\<lparr>HostIP = ''127.0.0.1'', HostPort = ''8080''\<rparr>]),
                (''53/udp'', [\<lparr>HostIP = ''0.0.0.0'', HostPort = ''5353''\<rparr>])]"
         "[(''53/udp'', [\<lparr>HostIP = ''0.0.0.0'', HostPort = ''5353''\<rparr>]),
                (''80/tcp'', [\<lparr>HostIP = ''127.0.0.1'', HostPort = ''8080''\<rparr>])]"] m
  show ?thesis
    by (cases "handleContainerUpdate demoEnv (demoEvent ''/containers/update'' ''c5'') ?w") simp
qed

theorem handleContainerUpdate_binding_order_counterexample:
  "map (\<lambda>(k, bs). (k, set bs))
       [(''80/tcp'', [\<lparr>HostIP = ''0.0.0.0'', HostPort = ''8081''\<rparr>,
                      \<lparr>HostIP = ''127.0.0.1'', HostPort = ''8080''\<rparr>])]
   = map (\<lambda>(k, bs). (k, set bs))
       [(''80/tcp'', [\<lparr>HostIP = ''127.0.0.1'', HostPort = ''8080''\<rparr>,
                      \<lparr>HostIP = ''0.0.0.0'', HostPort = ''8081''\<rparr>])]
   \<and> new_effects
       \<lparr>portTracker = [''c7'' \<mapsto> [(''80/tcp'', [\<lparr>HostIP = ''127.0.0.1'', HostPort = ''8080''\<rparr>,
                                                \<lparr>HostIP = ''0.0.0.0'', HostPort = ''8081''\<rparr>])]],
        trace = []\<rparr>
       (handleContainerUpdate demoEnv (demoEvent ''/containers/update'' ''c7'')
          \<lparr>portTracker = [''c7'' \<mapsto> [(''80/tcp'', [\<lparr>HostIP = ''127.0.0.1'', HostPort = ''8080''\<rparr>,
                                                   \<lparr>HostIP = ''0.0.0.0'', HostPort = ''8081''\<rparr>])]],
           trace = []\<rparr>)
     = [TrackerRemove ''c7'',
        TrackerAdd ''c7'' [(''80/tcp'', [\<lparr>HostIP = ''0.0.0.0'', HostPort = ''8081''\<rparr>,
                                         \<lparr>HostIP = ''127.0.0.1'', HostPort = ''8080''\<rparr>])]]"
proof -
  let ?new = "[(''80/tcp'', [\<lparr>HostIP = ''0.0.0.0'', HostPort = ''8081''\<rparr>,
                            \<lparr>HostIP = ''127.0.0.1'', HostPort = ''8080''\<rparr>])]"
  let ?old = "[(''80/tcp'', [\<lparr>HostIP = ''127.0.0.1'', HostPort = ''8080''\<rparr>,
                            \<lparr>HostIP = ''0.0.0.0'', HostPort = ''8081''\<rparr>])]"
  let ?w = "\<lparr>portTracker = [''c7'' \<mapsto> ?old], trace = []\<rparr>"
  have d: "\<not> DeepEqual ?new ?old"
    by (simp add: DeepEqual_def)
  have p: "createPortMappingFromString demoEnv
             (label [''nerdctl/ports'' \<mapsto> P7, ''nerdctl/networks'' \<mapsto> ''[bridge]'',
                     ''nerdctl/namespace'' \<mapsto> ''default''] portsKey)
           = Inr ?new"
    by (simp add: demo_label demo_P7)
  have "handleContainerUpdate demoEnv (demoEvent ''/containers/update'' ''c7'') ?w
        = trackerAdd ''c7'' ?new (trackerRemove ''c7'' ?w)"
    by (subst handleContainerUpdate_changed [OF demo_update_c1 demo_get(2) p _ _ d]) simp_all
  then show ?thesis
    by (auto simp: new_effects_def trace_trackerAdd trace_trackerRemove tracker_trackerRemove
        portTracker_Add_def)
qed

section \<open>The startup reconciler: properties\<close>

lemma trace_grows_reconcileContainer:
  "\<exists>xs. trace (reconcileContainer E c w) = trace w @ xs"
  by (auto simp: reconcileContainer_def Let_def trace_trackerAdd trace_runIptablesRules
      split: sum.splits option.splits)

lemma trace_grows_reconcileAll:
  "\<exists>xs. trace (reconcileAll E cs w) = trace w @ xs"
proof (induction cs arbitrary: w)
  case Nil
  then show ?case by simp
next
  case (Cons c cs)
  obtain xs where "trace (reconcileContainer E c w) = trace w @ xs"
    using trace_grows_reconcileContainer by blast
  moreover obtain ys where
    "trace (reconcileAll E cs (reconcileContainer E c w)) = trace (reconcileContainer E c w) @ ys"
    using Cons.IH by blast
  ultimately show ?case by simp
qed

lemma new_effects_trans:
  assumes "\<exists>xs. trace w1 = trace w @ xs" "\<exists>ys. trace w2 = trace w1 @ ys"
  shows "new_effects w w2 = new_effects w w1 @ new_effects w1 w2"
  using assms by (auto simp: new_effects_def)

lemma reconcileContainer_quiet:
  assumes "settled E (portTracker w) c"
  shows "portTracker (reconcileContainer E c w) = portTracker w
     \<and> filter is_command (new_effects w (reconcileContainer E c w)) = []"
  using assms
  by (auto simp: settled_def needsRules_def reconcileContainer_def portTracker_Get_def Let_def
      new_effects_def split: sum.splits)

lemma reconcileContainer_settles:
  assumes "tracker_ok (portTracker w)"
  shows "settled E (portTracker (reconcileContainer E c w)) c"
proof (cases "needsRules E c")
  case False
  then show ?thesis by (simp add: settled_def)
next
  case True
  then obtain t labels where c: "container_Task c = Inr t" "task_Status t = Inr Running"
    "container_Labels c = Inr labels"
    "portsOf (createPortMappingFromString E (label labels portsKey)) \<noteq> []"
    by (auto simp: needsRules_def split: sum.splits)
  show ?thesis
  proof (cases "portTracker w (container_ID c)")
    case None
    then have "length (case portTracker w (container_ID c) of None \<Rightarrow> [] | Some pm \<Rightarrow> pm) = 0"
      by simp
    from reconcileContainer_trace(2) [OF this c(1,2,3) refl c(4)] None c(4)
    show ?thesis by (simp add: settled_def portTracker_Add_def)
  next
    case (Some pm)
    with assms have "pm \<noteq> []" by (auto simp: tracker_ok_def)
    with Some show ?thesis
      by (simp add: settled_def reconcileContainer_def portTracker_Get_def)
  qed
qed

lemma portTracker_Add_mono:
  "t cid = Some pm \<Longrightarrow> fst (portTracker_Add t cid' ports) cid = Some pm"
  by (auto simp: portTracker_Add_def)

lemma portTracker_Add_ok:
  "tracker_ok t \<Longrightarrow> tracker_ok (fst (portTracker_Add t cid ports))"
  by (auto simp: portTracker_Add_def tracker_ok_def)

lemma reconcileContainer_mono:
  "portTracker w cid = Some pm \<Longrightarrow> portTracker (reconcileContainer E c w) cid = Some pm"
  by (auto simp: reconcileContainer_def Let_def tracker_trackerAdd tracker_runIptablesRules
      portTracker_Add_mono split: sum.splits)

lemma reconcileContainer_ok:
  "tracker_ok (portTracker w) \<Longrightarrow> tracker_ok (portTracker (reconcileContainer E c w))"
  by (auto simp: reconcileContainer_def Let_def tracker_trackerAdd tracker_runIptablesRules
      portTracker_Add_ok split: sum.splits)

text \<open>
  Every handler and the reconciler keep the tracker free of empty records, and the empty
  tracker has none.
\<close>

lemma tracker_ok_empty: "tracker_ok Map.empty"
  by (simp add: tracker_ok_def)

lemma tracker_ok_trackerAdd:
  "tracker_ok (portTracker w) \<Longrightarrow> tracker_ok (portTracker (trackerAdd cid ports w))"
  by (simp add: tracker_trackerAdd portTracker_Add_ok)

lemma tracker_ok_trackerRemove:
  "tracker_ok (portTracker w) \<Longrightarrow> tracker_ok (portTracker (trackerRemove cid w))"
  by (simp add: tracker_trackerRemove tracker_ok_def)

lemma tracker_ok_handleEnvelope:
  assumes "tracker_ok (portTracker w)"
  shows "tracker_ok (portTracker (handleEnvelope E ev w))"
proof -
  have "tracker_ok (portTracker (handleTaskStart E ev w))"
    using assms
    by (auto simp: handleTaskStart_def Let_def tracker_ok_trackerAdd tracker_runIptablesRules
        split: prod.splits)
  moreover have "tracker_ok (portTracker (handleContainerUpdate E ev w))"
    using assms
    by (auto simp: handleContainerUpdate_def Let_def tracker_ok_trackerAdd
        tracker_ok_trackerRemove split: prod.splits option.splits)
  moreover have "tracker_ok (portTracker (handleTaskExit E ev w))"
    using assms
    by (auto simp: handleTaskExit_def Let_def tracker_ok_trackerRemove
        split: prod.splits option.splits)
  ultimately show ?thesis
    using assms by (simp add: handleEnvelope_def)
qed

lemma tracker_ok_MonitorPorts:
  "tracker_ok (portTracker w) \<Longrightarrow> tracker_ok (portTracker (MonitorPorts E items w))"
  by (induction E items w rule: MonitorPorts.induct) (simp_all add: tracker_ok_handleEnvelope)

lemma tracker_ok_reconcileAll:
  "tracker_ok (portTracker w) \<Longrightarrow> tracker_ok (portTracker (reconcileAll E cs w))"
  by (induction cs arbitrary: w) (simp_all add: reconcileContainer_ok)

lemma reconcileAll_mono:
  "portTracker w cid = Some pm \<Longrightarrow> portTracker (reconcileAll E cs w) cid = Some pm"
  by (induction cs arbitrary: w) (auto simp: reconcileContainer_mono)

lemma settled_mono:
  "settled E (portTracker w) c \<Longrightarrow> settled E (portTracker (reconcileAll E cs w)) c"
  by (auto simp: settled_def reconcileAll_mono)

lemma reconcileAll_settles:
  "tracker_ok (portTracker w) \<Longrightarrow>
   list_all (settled E (portTracker (reconcileAll E cs w))) cs"
proof (induction cs arbitrary: w)
  case Nil
  then show ?case by simp
next
  case (Cons c cs)
  have "settled E (portTracker (reconcileContainer E c w)) c"
    using Cons.prems by (rule reconcileContainer_settles)
  then have "settled E (portTracker (reconcileAll E cs (reconcileContainer E c w))) c"
    by (rule settled_mono)
  moreover have "list_all (settled E (portTracker (reconcileAll E cs (reconcileContainer E c w)))) cs"
    using Cons.prems by (intro Cons.IH reconcileContainer_ok)
  ultimately show ?case by simp
qed

lemma reconcileAll_quiet:
  "list_all (settled E (portTracker w)) cs \<Longrightarrow>
   portTracker (reconcileAll E cs w) = portTracker w
   \<and> filter is_command (new_effects w (reconcileAll E cs w)) = []"
proof (induction cs arbitrary: w)
  case Nil
  then show ?case by (simp add: new_effects_def)
next
  case (Cons c cs)
  let ?w1 = "reconcileContainer E c w"
  from Cons.prems have q: "portTracker ?w1 = portTracker w"
    "filter is_command (new_effects w ?w1) = []"
    using reconcileContainer_quiet [of E w c] by simp_all
  with Cons.prems have "list_all (settled E (portTracker ?w1)) cs" by simp
  from Cons.IH [OF this] have r: "portTracker (reconcileAll E cs ?w1) = portTracker ?w1"
    "filter is_command (new_effects ?w1 (reconcileAll E cs ?w1)) = []"
    by simp_all
  have "new_effects w (reconcileAll E cs ?w1)
        = new_effects w ?w1 @ new_effects ?w1 (reconcileAll E cs ?w1)"
    by (intro new_effects_trans trace_grows_reconcileContainer trace_grows_reconcileAll)
  with q r show ?case by simp
qed

lemma second_run_quiet:
  assumes "tracker_ok (portTracker w)"
  shows "filter is_command
           (new_effects (initializeRunningContainers E w)
              (initializeRunningContainers E (initializeRunningContainers E w))) = []
     \<and> portTracker (initializeRunningContainers E (initializeRunningContainers E w))
       = portTracker (initializeRunningContainers E w)"
proof (cases "Containers E")
  case (Inl err)
  then show ?thesis
    by (simp add: initializeRunningContainers_def new_effects_def)
next
  case (Inr cs)
  then show ?thesis
    using reconcileAll_quiet [OF reconcileAll_settles [OF assms, of E cs]]
    by (simp add: initializeRunningContainers_def)
qed

lemma demo_exec_c2:
  "execIptablesRules demoEnv [(''80/tcp'', [\<lparr>HostIP = ''127.0.0.1'', HostPort = ''8080''\<rparr>])]
     ''c2'' ''[bridge]'' ''default'' ''4242''
   = (None,
      [Command (nsenterArgs ''4242''),
       Command (networkCmd demoEnv ''default-c2'' ''10.4.0.22'' ''80'' ''8080'' ''bridge'')])"
proof -
  have f: "iptables demoEnv (networkCmd demoEnv ''default-c2'' ''10.4.0.22'' ''80'' ''8080'' n)
           = (None, [])" for n
    by (simp add: demo_fields networkCmd_def)
  show ?thesis
    by (simp add: execIptablesRules_def demo_fields(6) demoNetworks_def
        createLoopback_eq [OF demo_extract] Let_def cmdFailure_def f Port_Port_def)
qed

text \<open>
  C7. For each container the runtime lists, the startup reconciler does nothing when the
  tracker already holds a non-empty record for it or when its task is not running, and
  neither touches the tracker nor runs a command when its extracted mapping set is
  empty. For a running container with a non-empty mapping set that the tracker does not
  hold, it runs the firewall synchronizer and then adds the mappings to the tracker.
  Consequently, starting from a tracker without empty records, a second reconciliation
  right after the first runs no command and leaves the tracker as the first left it.
\<close>

theorem reconciler_skips_and_second_run:
  "(portTracker w (container_ID c) = Some pm \<and> pm \<noteq> [] \<longrightarrow> reconcileContainer E c w = w)
   \<and> (container_Task c = Inr t \<and> task_Status t = Inr status \<and> status \<noteq> Running
        \<longrightarrow> reconcileContainer E c w = w)
   \<and> (container_Task c = Inr t \<and> task_Status t = Inr Running
        \<and> container_Labels c = Inr labels
        \<and> portsOf (createPortMappingFromString E (label labels portsKey)) = []
        \<longrightarrow> portTracker (reconcileContainer E c w) = portTracker w
            \<and> filter (\<lambda>e. is_tracker_mutation e \<or> is_command e)
                (new_effects w (reconcileContainer E c w)) = [])
   \<and> (portTracker w (container_ID c) = None
        \<and> container_Task c = Inr t \<and> task_Status t = Inr Running
        \<and> container_Labels c = Inr labels
        \<and> createPortMappingFromString E (label labels portsKey) = Inr ports
        \<and> ports \<noteq> []
        \<longrightarrow> new_effects w (reconcileContainer E c w)
              = snd (execIptablesRules E ports (container_ID c) (label labels networkKey)
                       (label labels namespaceKey) (Itoa (uint (task_Pid t))))
                @ (case fst (execIptablesRules E ports (container_ID c)
                               (label labels networkKey) (label labels namespaceKey)
                               (Itoa (uint (task_Pid t)))) of
                     None \<Rightarrow> [] | Some e \<Rightarrow> [Errorf LogIptables e])
                @ [TrackerAdd (container_ID c) ports]
            \<and> portTracker (reconcileContainer E c w)
              = (portTracker w)(container_ID c \<mapsto> ports))
   \<and> (tracker_ok (portTracker w)
        \<longrightarrow> filter is_command
              (new_effects (initializeRunningContainers E w)
                 (initializeRunningContainers E (initializeRunningContainers E w))) = []
            \<and> portTracker (initializeRunningContainers E (initializeRunningContainers E w))
              = portTracker (initializeRunningContainers E w))"
proof (intro conjI impI; (elim conjE)?)
  show "reconcileContainer E c w = w" if "portTracker w (container_ID c) = Some pm" "pm \<noteq> []"
    using that by (simp add: reconcileContainer_def portTracker_Get_def)
  show "reconcileContainer E c w = w"
    if "container_Task c = Inr t" "task_Status t = Inr status" "status \<noteq> Running"
    using that by (simp add: reconcileContainer_def)
next
  assume a: "container_Task c = Inr t" "task_Status t = Inr Running"
    "container_Labels c = Inr labels"
    "portsOf (createPortMappingFromString E (label labels portsKey)) = []"
  then have "reconcileContainer E c w = w
             \<or> reconcileContainer E c w
               = logErr LogPortMapping
                   (errOf (createPortMappingFromString E (label labels portsKey))) w"
    by (simp add: reconcileContainer_def Let_def)
  then show "portTracker (reconcileContainer E c w) = portTracker w"
    and "filter (\<lambda>e. is_tracker_mutation e \<or> is_command e)
           (new_effects w (reconcileContainer E c w)) = []"
    by (auto simp: new_effects_def)
next
  assume a: "portTracker w (container_ID c) = None"
    "container_Task c = Inr t" "task_Status t = Inr Running"
    "container_Labels c = Inr labels"
    "createPortMappingFromString E (label labels portsKey) = Inr ports"
    "ports \<noteq> []"
  have l: "length (case portTracker w (container_ID c) of None \<Rightarrow> [] | Some pm \<Rightarrow> pm) = 0"
    using a(1) by simp
  have p: "portsOf (createPortMappingFromString E (label labels portsKey)) = ports"
    using a(5) by (simp add: portsOf_def)
  show "new_effects w (reconcileContainer E c w)
              = snd (execIptablesRules E ports (container_ID c) (label labels networkKey)
                       (label labels namespaceKey) (Itoa (uint (task_Pid t))))
                @ (case fst (execIptablesRules E ports (container_ID c)
                               (label labels networkKey) (label labels namespaceKey)
                               (Itoa (uint (task_Pid t)))) of
                     None \<Rightarrow> [] | Some e \<Rightarrow> [Errorf LogIptables e])
                @ [TrackerAdd (container_ID c) ports]"
    by (rule new_effectsI)
       (simp add: reconcileContainer_trace(1) [OF l a(2,3,4) p a(6)] a(1,5,6) errOf_def
          portTracker_Add_fresh)
  show "portTracker (reconcileContainer E c w) = (portTracker w)(container_ID c \<mapsto> ports)"
    by (simp add: reconcileContainer_trace(2) [OF l a(2,3,4) p a(6)] a(1,6) portTracker_Add_fresh)
next
  assume "tracker_ok (portTracker w)"
  from second_run_quiet [OF this, of E]
  show "filter is_command
              (new_effects (initializeRunningContainers E w)
                 (initializeRunningContainers E (initializeRunningContainers E w))) = []"
    and "portTracker (initializeRunningContainers E (initializeRunningContainers E w))
              = portTracker (initializeRunningContainers E w)"
    by simp_all
qed

theorem reconciler_skips_and_second_run_witness:
  "new_effects emptyWorld (initializeRunningContainers demoEnv emptyWorld)
     = [Command (nsenterArgs ''4242''),
        Command (networkCmd demoEnv ''default-c2'' ''10.4.0.22'' ''80'' ''8080'' ''bridge''),
        TrackerAdd ''c2'' [(''80/tcp'', [\<lparr>HostIP = ''127.0.0.1'', HostPort = ''8080''\<rparr>])]]
   \<and> portTracker (initializeRunningContainers demoEnv emptyWorld)
     = [''c2'' \<mapsto> [(''80/tcp'', [\<lparr>HostIP = ''127.0.0.1'', HostPort = ''8080''\<rparr>])]]
   \<and> filter is_command
       (new_effects (initializeRunningContainers demoEnv emptyWorld)
          (initializeRunningContainers demoEnv
             (initializeRunningContainers demoEnv emptyWorld))) = []"
proof -
  let ?pm = "[(''80/tcp'', [\<lparr>HostIP = ''127.0.0.1'', HostPort = ''8080''\<rparr>])]"
  let ?L = "[''nerdctl/ports'' \<mapsto> P1, ''nerdctl/networks'' \<mapsto> ''[bridge]'',
             ''nerdctl/namespace'' \<mapsto> ''default'']"
  let ?t = "\<lparr>task_Pid = 4242, task_Status = Inr Running\<rparr>"
  have c: "container_ID (demoContainer ''c2'') = ''c2''"
    "container_Task (demoContainer ''c2'') = Inr ?t"
    "container_Labels (demoContainer ''c2'') = Inr ?L"
    by (simp_all add: demoContainer_def demoLabels_def)
  have p: "createPortMappingFromString demoEnv (label ?L portsKey) = Inr ?pm"
    by (simp add: demo_label demo_P1)
  have ok: "tracker_ok (portTracker emptyWorld)"
    by (simp add: tracker_ok_def emptyWorld_def)
  have e: "portTracker emptyWorld = Map.empty"
    by (simp add: emptyWorld_def)
  have i: "initializeRunningContainers demoEnv emptyWorld
           = reconcileContainer demoEnv (demoContainer ''c2'') emptyWorld"
    by (simp add: initializeRunningContainers_def demo_fields)
  from reconciler_skips_and_second_run [where E = demoEnv and w = emptyWorld
      and c = "demoContainer ''c2''" and t = ?t and labels = ?L and ports = ?pm
      and pm = "[]" and status = Running]
  show ?thesis
    using c p ok e
    by (simp add: i demo_label demo_pid demo_exec_c2)
qed

end
